theory Spec2Isabelle
  imports Complex_Main "HOL-Library.AList"
begin

section \<open>Python values used by the batch pipeline\<close>

text \<open>
  Python floats are modelled by exact rationals: every finite float is a rational, and the
  model computes without rounding error and without NaN or infinity. Python ints are
  \<open>int\<close>. Wall-clock times (\<open>datetime.now()\<close>) are seconds as a rational, read
  from a clock in the world state that only \<open>time.sleep\<close> advances.
\<close>

datatype exn =
    KeyboardInterrupt
  | UnboundLocalError
  | ValueError
  | OverflowError
  | ZeroDivisionError
  | AttributeError
  | NotFittedError
  | DatabaseError


datatype 'a outcome = Raise exn | Return 'a

text \<open>\<open>round(x)\<close> on a float: to the nearest integer, ties to the even one.\<close>

definition py_round :: "rat \<Rightarrow> int" where
  "py_round x =
     (let f = \<lfloor>x\<rfloor>; d = x - of_int f
      in if d < 1 / 2 then f
         else if 1 / 2 < d then f + 1
         else if even f then f else f + 1)"

text \<open>\<open>round(x, n)\<close>: the same rounding at the n-th decimal.\<close>

definition py_round_n :: "rat \<Rightarrow> nat \<Rightarrow> rat" where
  "py_round_n x n = of_int (py_round (x * 10 ^ n)) / 10 ^ n"

text \<open>\<open>a / b\<close> raises \<open>ZeroDivisionError\<close> when \<open>b\<close> is zero.\<close>

definition py_truediv :: "rat \<Rightarrow> rat \<Rightarrow> rat outcome" where
  "py_truediv a b = (if b = 0 then Raise ZeroDivisionError else Return (a / b))"

text \<open>\<open>float(v or d)\<close> on a nullable numeric column: \<open>None\<close> and \<open>0\<close> are both
  falsy, so both give the default.\<close>

definition py_or :: "rat option \<Rightarrow> rat \<Rightarrow> rat" where
  "py_or v d = (case v of None \<Rightarrow> d | Some x \<Rightarrow> if x = 0 then d else x)"

section \<open>The store (db\_glue.py and the tables the queries name)\<close>

text \<open>
  The tables are lists of rows with the columns that the queries of the source read and
  write (schema.sql, which declares them, is not among the sources).
  \<open>batches_id_seq\<close> is the sequence behind \<open>batches.id\<close>
  (\<open>INSERT ... RETURNING id\<close>).
\<close>

record event =
  ev_id :: int
  ev_event_id :: string
  ev_timestamp :: rat
  ev_event_type :: string
  ev_data_size_kb :: rat
  ev_priority :: string
  ev_processed :: bool
  ev_batch_id :: "int option"

record batch =
  bt_id :: int
  bt_batch_size :: int
  bt_total_data_size_kb :: rat
  bt_started_at :: rat
  bt_status :: string
  bt_processing_time_seconds :: "rat option"
  bt_processing_cost :: "rat option"
  bt_completed_at :: "rat option"

record cost_metric =
  cm_batch_id :: int
  cm_batch_size :: int
  cm_total_data_kb :: rat
  cm_processing_time_seconds :: rat
  cm_cost_per_event :: rat
  cm_timestamp :: rat

record database =
  events :: "event list"
  batches :: "batch list"
  cost_metrics :: "cost_metric list"
  batches_id_seq :: int

text \<open>The SQL statements of the workers and the processor, one name per statement.\<close>

datatype statement =
    CountUnprocessed
  | SelectRecentBatch
  | SelectUnprocessedStats
  | SelectUnprocessed
  | InsertBatch
  | UpdateEvents
  | UpdateBatch
  | InsertCostMetric

text \<open>
  What the surroundings decide during one loop iteration: which statement fails and with
  which exception (\<open>fault\<close>), what other clients of the database committed just before a
  statement runs (\<open>others\<close>; no transaction spans the statements of a batch), the value
  drawn by \<open>random.uniform(0.8, 1.2)\<close>, and whether another thread cleared
  \<open>is_running\<close> (a call of \<open>stop()\<close>) during the iteration.
\<close>

record env =
  fault :: "statement \<Rightarrow> exn option"
  others :: "statement \<Rightarrow> database \<Rightarrow> database"
  jitter :: rat
  stop_called :: bool

text \<open>A printed line: the text of the source's message with \<open>{}\<close> for each
  formatted value, and the values.\<close>

datatype arg = I int | F rat | X exn

type_synonym line = "string \<times> arg list"

text \<open>The world outside the worker object: the database, the wall clock, what was
  printed, and the number of threads started so far (the next thread's handle).\<close>

record world =
  db :: database
  clock :: rat
  out :: "line list"
  threads :: nat

type_synonym 'a prog = "world \<Rightarrow> 'a outcome \<times> world"

definition py_print :: "line \<Rightarrow> world \<Rightarrow> world" where
  "py_print l w = w\<lparr>out := out w @ [l]\<rparr>"

definition rule60 :: line where
  "rule60 = (replicate 60 CHR ''='', [])"

definition and_then :: "'a prog \<Rightarrow> ('a \<Rightarrow> 'b prog) \<Rightarrow> 'b prog" where
  "and_then m f w = (case m w of (Raise e, w1) \<Rightarrow> (Raise e, w1) | (Return x, w1) \<Rightarrow> f x w1)"

definition lift :: "'a outcome \<Rightarrow> 'a prog" where
  "lift r w = (r, w)"

text \<open>
  \<open>time.sleep(secs)\<close>. CPython first converts the length to a signed 64-bit count of
  nanoseconds and raises \<open>OverflowError\<close> when it does not fit (from about
  \<open>9.22e9\<close> seconds on, \<open>time.sleep(10**10)\<close> for one); then a negative length
  raises \<open>ValueError\<close>. \<open>sleepable\<close> are the lengths it accepts.
\<close>

definition sleepable :: "rat \<Rightarrow> bool" where
  "sleepable secs = (0 \<le> secs \<and> secs * 10 ^ 9 < 2 ^ 63)"

definition sleep :: "rat \<Rightarrow> unit prog" where
  "sleep secs w =
     (if secs * 10 ^ 9 < - (2 ^ 63) \<or> 2 ^ 63 \<le> secs * 10 ^ 9 then (Raise OverflowError, w)
      else if secs < 0 then (Raise ValueError, w)
      else (Return (), w\<lparr>clock := clock w + secs\<rparr>))"

text \<open>\<open>Database.get_connection\<close> around one statement: the statement sees the database
  as other clients left it; when it fails the transaction is rolled back and the exception
  raised again.\<close>

definition begin_stmt :: "env \<Rightarrow> statement \<Rightarrow> world \<Rightarrow> world" where
  "begin_stmt en st w = w\<lparr>db := others en st (db w)\<rparr>"

definition Database_init :: "world \<Rightarrow> world" where
  "Database_init w = py_print (''Database config: {}:{}/{}'', []) w"

definition unprocessed :: "database \<Rightarrow> event list" where
  "unprocessed d = filter (\<lambda>e. \<not> ev_processed e) (events d)"

text \<open>\<open>Database.get_unprocessed_events\<close>: \<open>ORDER BY timestamp ASC LIMIT limit\<close>; PostgreSQL
  rejects a negative \<open>LIMIT\<close>. Rows of equal timestamp keep their table order.\<close>

definition get_unprocessed_events :: "env \<Rightarrow> int \<Rightarrow> event list prog" where
  "get_unprocessed_events en limit w =
     (let w1 = begin_stmt en SelectUnprocessed w
      in case fault en SelectUnprocessed of
           Some e \<Rightarrow> (Raise e, w1)
         | None \<Rightarrow>
             if limit < 0 then (Raise DatabaseError, w1)
             else (Return (take (nat limit) (sort_key ev_timestamp (unprocessed (db w1)))), w1))"

section \<open>BatchProcessor (batch\_processor.py)\<close>

record BatchProcessor =
  batch_size :: int
  FIXED_COST :: rat
  VARIABLE_COST_PER_EVENT :: rat
  PROCESSING_SPEED :: rat

definition BatchProcessor_init :: "int \<Rightarrow> world \<Rightarrow> BatchProcessor \<times> world" where
  "BatchProcessor_init bs w =
     (let w1 = Database_init w;
          self = \<lparr>batch_size = bs, FIXED_COST = 1 / 10, VARIABLE_COST_PER_EVENT = 1 / 200,
                  PROCESSING_SPEED = 1 / 50\<rparr>
      in (self, py_print (''batch processor initialized with batch_size={}'', [I bs]) w1))"

definition fetch_unprocessed_events :: "env \<Rightarrow> BatchProcessor \<Rightarrow> int option \<Rightarrow> event list prog" where
  "fetch_unprocessed_events en self limit =
     (let limit = (case limit of None \<Rightarrow> batch_size self | Some l \<Rightarrow> l)
      in and_then (get_unprocessed_events en limit) (\<lambda>evs w.
           (Return evs,
            if evs \<noteq> [] then py_print (''fetched {} unprocessed events'', [I (int (length evs))]) w
            else py_print (''no unprocessed event found'', []) w)))"

record metrics =
  m_batch_size :: int
  m_total_data_kb :: rat
  m_event_types :: "(string \<times> int) list"
  m_avg_data_per_event :: rat

text \<open>\<open>event_types[t] = event_types.get(t, 0) + 1\<close> on a dict that keeps insertion order.\<close>

definition count_type :: "(string \<times> int) list \<Rightarrow> string \<Rightarrow> (string \<times> int) list" where
  "count_type m t = AList.update t ((case map_of m t of None \<Rightarrow> 0 | Some c \<Rightarrow> c) + 1) m"

definition calculate_batch_metrics :: "event list \<Rightarrow> metrics" where
  "calculate_batch_metrics evs =
     (let total_data_kb = sum_list (map ev_data_size_kb evs);
          event_types = foldl (\<lambda>m e. count_type m (ev_event_type e)) [] evs
      in \<lparr>m_batch_size = int (length evs),
          m_total_data_kb = py_round_n total_data_kb 2,
          m_event_types = event_types,
          m_avg_data_per_event =
            (if evs \<noteq> [] then py_round_n (total_data_kb / of_int (int (length evs))) 2 else 0)\<rparr>)"

definition simulate_processing :: "env \<Rightarrow> BatchProcessor \<Rightarrow> rat \<Rightarrow> int \<Rightarrow> rat prog" where
  "simulate_processing en self total_data_kb bs w =
     (let base_time = total_data_kb * PROCESSING_SPEED self;
          randomness = jitter en;
          processing_time = base_time * randomness;
          processing_time = processing_time + 1 / 2;
          w1 = py_print (''processing {} events ({} KB)..'', [I bs, F total_data_kb]) w
      in and_then (sleep processing_time) (\<lambda>_. lift (Return (py_round_n processing_time 2))) w1)"

definition calculate_cost :: "BatchProcessor \<Rightarrow> int \<Rightarrow> rat \<Rightarrow> rat prog" where
  "calculate_cost self bs processing_time w =
     (let fixed_cost = FIXED_COST self;
          variable_cost = VARIABLE_COST_PER_EVENT self * of_int bs;
          total_cost = fixed_cost + variable_cost;
          cost_per_event = (if bs > 0 then total_cost / of_int bs else 0)
      in (Return (py_round_n total_cost 4),
          py_print (''Batch cost: ${} (${} per event)'', [F total_cost, F cost_per_event]) w))"

definition create_batch_record :: "env \<Rightarrow> BatchProcessor \<Rightarrow> int \<Rightarrow> rat \<Rightarrow> int prog" where
  "create_batch_record en self bs total_data_kb w =
     (let w1 = begin_stmt en InsertBatch w
      in case fault en InsertBatch of
           Some e \<Rightarrow> (Raise e, w1)
         | None \<Rightarrow>
             (let d = db w1;
                  batch_id = batches_id_seq d + 1;
                  row = \<lparr>bt_id = batch_id, bt_batch_size = bs,
                         bt_total_data_size_kb = total_data_kb, bt_started_at = clock w1,
                         bt_status = ''processing'', bt_processing_time_seconds = None,
                         bt_processing_cost = None, bt_completed_at = None\<rparr>;
                  w2 = w1\<lparr>db := d\<lparr>batches := batches d @ [row], batches_id_seq := batch_id\<rparr>\<rparr>
              in (Return batch_id, py_print (''created batch record {}'', [I batch_id]) w2)))"

text \<open>\<open>UPDATE events SET processed = TRUE, batch_id = %s WHERE id IN %s\<close>. The row count
  is printed and dropped: the method returns nothing. psycopg2 renders an empty tuple as
  \<open>()\<close>, which PostgreSQL rejects.\<close>

definition mark_row :: "int list \<Rightarrow> int \<Rightarrow> event \<Rightarrow> event" where
  "mark_row event_ids batch_id e =
     (if ev_id e \<in> set event_ids then e\<lparr>ev_processed := True, ev_batch_id := Some batch_id\<rparr>
      else e)"

definition mark_events_as_processed :: "env \<Rightarrow> BatchProcessor \<Rightarrow> int list \<Rightarrow> int \<Rightarrow> unit prog" where
  "mark_events_as_processed en self event_ids batch_id w =
     (let w1 = begin_stmt en UpdateEvents w
      in case fault en UpdateEvents of
           Some e \<Rightarrow> (Raise e, w1)
         | None \<Rightarrow>
             if event_ids = [] then (Raise DatabaseError, w1)
             else
               (let d = db w1;
                    rows_updated = int (length (filter (\<lambda>e. ev_id e \<in> set event_ids) (events d)));
                    w2 = w1\<lparr>db := d\<lparr>events := map (mark_row event_ids batch_id) (events d)\<rparr>\<rparr>
                in (Return (), py_print (''Marked {} events as processed'', [I rows_updated]) w2)))"

definition complete_row :: "int \<Rightarrow> rat \<Rightarrow> rat \<Rightarrow> rat \<Rightarrow> batch \<Rightarrow> batch" where
  "complete_row batch_id processing_time cost now b =
     (if bt_id b = batch_id
      then b\<lparr>bt_processing_time_seconds := Some processing_time, bt_processing_cost := Some cost,
             bt_completed_at := Some now, bt_status := ''completed''\<rparr>
      else b)"

definition update_batch_record :: "env \<Rightarrow> BatchProcessor \<Rightarrow> int \<Rightarrow> rat \<Rightarrow> rat \<Rightarrow> unit prog" where
  "update_batch_record en self batch_id processing_time cost w =
     (let w1 = begin_stmt en UpdateBatch w
      in case fault en UpdateBatch of
           Some e \<Rightarrow> (Raise e, w1)
         | None \<Rightarrow>
             (let d = db w1;
                  w2 = w1\<lparr>db := d\<lparr>batches :=
                         map (complete_row batch_id processing_time cost (clock w1)) (batches d)\<rparr>\<rparr>
              in (Return (), py_print (''updated batch {} with results'', [I batch_id]) w2)))"

definition save_cost_metrics ::
  "env \<Rightarrow> BatchProcessor \<Rightarrow> int \<Rightarrow> int \<Rightarrow> rat \<Rightarrow> rat \<Rightarrow> rat \<Rightarrow> unit prog" where
  "save_cost_metrics en self batch_id bs total_data_kb processing_time cost w =
     (let w0 = py_print (''DEBUG: saving cost for batch_id = {}'', [I batch_id]) w;
          cost_per_event = (if bs > 0 then cost / of_int bs else 0);
          w1 = begin_stmt en InsertCostMetric w0
      in case fault en InsertCostMetric of
           Some e \<Rightarrow> (Raise e, w1)
         | None \<Rightarrow>
             (let d = db w1;
                  row = \<lparr>cm_batch_id = batch_id, cm_batch_size = bs,
                         cm_total_data_kb = total_data_kb,
                         cm_processing_time_seconds = processing_time,
                         cm_cost_per_event = cost_per_event, cm_timestamp = clock w1\<rparr>;
                  w2 = w1\<lparr>db := d\<lparr>cost_metrics := cost_metrics d @ [row]\<rparr>\<rparr>
              in (Return (), py_print (''saved cost metrics for ML training'', []) w2)))"

record batch_result =
  r_batch_id :: int
  r_events_processed :: int
  r_total_data_kb :: rat
  r_processing_time :: rat
  r_cost :: rat
  r_cost_per_event :: rat

definition print_completed :: "batch_result \<Rightarrow> world \<Rightarrow> world" where
  "print_completed result w =
     py_print rule60
       (py_print ('' Cost: ${}'', [F (r_cost result)])
         (py_print ('' Time: {}s'', [F (r_processing_time result)])
           (py_print (''processed: {} events'', [I (r_events_processed result)])
             (py_print ('' Batch #{} completed successfully'', [I (r_batch_id result)])
               (py_print rule60 w)))))"

text \<open>Steps 3 to 8 and the result of \<open>process_batch\<close>, for a non-empty list of fetched
  events.\<close>

definition run_batch :: "env \<Rightarrow> BatchProcessor \<Rightarrow> event list \<Rightarrow> batch_result prog" where
  "run_batch en self evs =
     (let metrics = calculate_batch_metrics evs
      in and_then (\<lambda>w. (Return (),
             py_print (''Batch metrics: {} events, {} KB total'',
               [I (m_batch_size metrics), F (m_total_data_kb metrics)]) w)) (\<lambda>_.
         and_then (create_batch_record en self (m_batch_size metrics) (m_total_data_kb metrics))
           (\<lambda>batch_id.
         and_then (simulate_processing en self (m_total_data_kb metrics) (m_batch_size metrics))
           (\<lambda>processing_time.
         and_then (calculate_cost self (m_batch_size metrics) processing_time) (\<lambda>cost.
         and_then (mark_events_as_processed en self (map ev_id evs) batch_id) (\<lambda>_.
         and_then (update_batch_record en self batch_id processing_time cost) (\<lambda>_.
         and_then (save_cost_metrics en self batch_id (m_batch_size metrics)
                     (m_total_data_kb metrics) processing_time cost) (\<lambda>_.
         and_then (lift (py_truediv cost (of_int (m_batch_size metrics)))) (\<lambda>q w.
           (let result = \<lparr>r_batch_id = batch_id,
                           r_events_processed = m_batch_size metrics,
                           r_total_data_kb = m_total_data_kb metrics,
                           r_processing_time = processing_time,
                           r_cost = cost,
                           r_cost_per_event = py_round_n q 4\<rparr>
            in (Return result, print_completed result w)))))))))))"

definition process_batch :: "env \<Rightarrow> BatchProcessor \<Rightarrow> batch_result option prog" where
  "process_batch en self w =
     and_then (fetch_unprocessed_events en self None) (\<lambda>evs.
       if evs = [] then (\<lambda>w. (Return None, py_print (''No events to process'', []) w))
       else and_then (run_batch en self evs) (\<lambda>result. lift (Return (Some result))))
     (py_print rule60 w)"

section \<open>BatchOptimizer (ml\_model.py)\<close>

text \<open>
  The fitted scikit-learn objects are functions: the scaler maps a feature row to a scaled
  row, the forest maps a scaled row to its prediction. \<open>None\<close> is the state before
  fitting or loading: \<open>self.model = None\<close> and an unfitted \<open>StandardScaler()\<close>.
\<close>

record BatchOptimizer =
  model :: "(rat list \<Rightarrow> rat) option"
  scaler :: "(rat list \<Rightarrow> rat list) option"
  is_trained :: bool

definition BatchOptimizer_init :: "world \<Rightarrow> BatchOptimizer \<times> world" where
  "BatchOptimizer_init w =
     (\<lparr>model = None, scaler = None, is_trained = False\<rparr>,
      py_print (''BatchOptimizer initialized.'', []) (Database_init w))"

definition predict_optimal_batch_size ::
  "BatchOptimizer \<Rightarrow> rat \<Rightarrow> rat \<Rightarrow> int \<Rightarrow> rat \<Rightarrow> rat \<Rightarrow> int prog" where
  "predict_optimal_batch_size self total_data_kb avg_data_per_event hour_of_day
       last_processing_time last_cost_per_event w =
     (if \<not> is_trained self
      then (Return 50, py_print (''  Model not trained yet, using default batch size: 50'', []) w)
      else
        (let features = [total_data_kb, avg_data_per_event, of_int hour_of_day,
                         last_processing_time, last_cost_per_event]
         in case scaler self of
              None \<Rightarrow> (Raise NotFittedError, w)
            | Some transform \<Rightarrow>
                (let features_scaled = transform features
                 in case model self of
                      None \<Rightarrow> (Raise AttributeError, w)
                    | Some predict \<Rightarrow>
                        (let predicted_size = predict features_scaled;
                             predicted_size = py_round (predicted_size / 10) * 10;
                             predicted_size = max 20 (min 200 predicted_size)
                         in (Return predicted_size, w)))))"

text \<open>\<open>load_model\<close> reads the two pickle files; \<open>None\<close> is a file that is missing or does
  not load.\<close>

record disk =
  model_pkl :: "(rat list \<Rightarrow> rat) option"
  scaler_pkl :: "(rat list \<Rightarrow> rat list) option"

definition load_model :: "disk \<Rightarrow> BatchOptimizer \<Rightarrow> world \<Rightarrow> bool \<times> BatchOptimizer \<times> world" where
  "load_model dk self w =
     (case model_pkl dk of
        None \<Rightarrow> (False, self, py_print ('' Model file not found: {}'', []) w)
      | Some m \<Rightarrow>
          (case scaler_pkl dk of
             None \<Rightarrow> (False, self\<lparr>model := Some m\<rparr>, py_print ('' Error loading model: {}'', []) w)
           | Some sc \<Rightarrow>
               (True, self\<lparr>model := Some m, scaler := Some sc, is_trained := True\<rparr>,
                py_print ('' Model loaded successfully'', []) w)))"

section \<open>The workers (worker.py, optimized\_worker.py)\<close>

record worker_stats =
  total_batches_processed :: int
  total_events_processed :: int
  total_cost :: rat
  started_at :: "rat option"
  last_batch_at :: "rat option"

record smart_stats = worker_stats +
  ml_predictions_used :: int

text \<open>The fields both worker classes have; \<open>thread\<close> is the handle of the last thread
  the worker started.\<close>

record 's worker_base =
  interval_seconds :: int
  is_running :: bool
  thread :: "nat option"
  stats :: 's

record BackgroundWorker = "worker_stats worker_base" +
  processor :: BatchProcessor

record SmartBackGroundWorker = "smart_stats worker_base" +
  optimizer :: BatchOptimizer
  ml_enabled :: bool

definition BackgroundWorker_init :: "int \<Rightarrow> int \<Rightarrow> world \<Rightarrow> BackgroundWorker \<times> world" where
  "BackgroundWorker_init bs interval w =
     (let (p, w1) = BatchProcessor_init bs w;
          self = \<lparr>interval_seconds = interval, is_running = False, thread = None,
                  stats = \<lparr>total_batches_processed = 0, total_events_processed = 0,
                            total_cost = 0, started_at = None, last_batch_at = None\<rparr>,
                  processor = p\<rparr>
      in (self,
          py_print (''   Check interval: {}s'', [I interval])
            (py_print (''   Batch size: {}'', [I bs])
              (py_print (''BackgroundWorker initialized'', []) w1))))"

definition SmartBackGroundWorker_init :: "disk \<Rightarrow> int \<Rightarrow> world \<Rightarrow> SmartBackGroundWorker \<times> world" where
  "SmartBackGroundWorker_init dk interval w =
     (let w1 = Database_init w;
          (opt, w2) = BatchOptimizer_init w1;
          (loaded, opt1, w3) = load_model dk opt w2;
          w4 = (if loaded
                then py_print (''ML model loaded successfully, smart optimization enabled'', []) w3
                else py_print (''No existing ML model found, running with default settings'', []) w3);
          self = \<lparr>interval_seconds = interval, is_running = False, thread = None,
                  stats = \<lparr>total_batches_processed = 0, total_events_processed = 0,
                            total_cost = 0, started_at = None, last_batch_at = None,
                            ml_predictions_used = 0\<rparr>,
                  optimizer = opt1, ml_enabled = loaded\<rparr>
      in (self,
          py_print (''   Check interval: {}s'', [I interval])
            (py_print (''optimized background worker initialized'', []) w4)))"

text \<open>\<open>datetime.now().hour\<close>, read off the clock.\<close>

definition hour_of :: "rat \<Rightarrow> int" where
  "hour_of t = (\<lfloor>t\<rfloor> div 3600) mod 24"

text \<open>The most recent completed batch (\<open>ORDER BY id DESC LIMIT 1\<close>): its
  \<open>processing_time_seconds\<close>. The second column of the query,
  \<open>total_data_size_kb / batch_size\<close>, is never read by the worker; a failure of the
  statement, that division included, is a fault of the environment.\<close>

definition recent_completed :: "database \<Rightarrow> rat option list" where
  "recent_completed d =
     map bt_processing_time_seconds
       (take 1 (rev (sort_key bt_id (filter (\<lambda>b. bt_status b = ''completed'') (batches d)))))"

definition get_smart_batch_size ::
  "env \<Rightarrow> SmartBackGroundWorker \<Rightarrow> world \<Rightarrow> int outcome \<times> SmartBackGroundWorker \<times> world" where
  "get_smart_batch_size en self w =
     (let w1 = begin_stmt en CountUnprocessed w
      in case fault en CountUnprocessed of
           Some e \<Rightarrow> (Raise e, self, w1)
         | None \<Rightarrow>
             (let unprocessed_count = int (length (unprocessed (db w1)))
              in if unprocessed_count = 0 then (Return 50, self, w1)
                 else
                   (let w2 = begin_stmt en SelectRecentBatch w1
                    in case fault en SelectRecentBatch of
                         Some e \<Rightarrow> (Raise e, self, w2)
                       | None \<Rightarrow>
                           (case recent_completed (db w2) of
                              [] \<Rightarrow> (Return 50, self, w2)
                            | last_batch # _ \<Rightarrow>
                                (let w3 = begin_stmt en SelectUnprocessedStats w2
                                 in case fault en SelectUnprocessedStats of
                                      Some e \<Rightarrow> (Raise e, self, w3)
                                    | None \<Rightarrow>
                                        (let rows = map ev_data_size_kb (unprocessed (db w3));
                                             sum_kb = (if rows = [] then None
                                                       else Some (sum_list rows));
                                             avg_kb = (if rows = [] then None
                                                       else Some (sum_list rows
                                                                  / of_int (int (length rows))));
                                             total_data_kb = py_or sum_kb 0;
                                             avg_data_kb = py_or avg_kb 15
                                         in case predict_optimal_batch_size (optimizer self)
                                                   total_data_kb avg_data_kb (hour_of (clock w3))
                                                   (py_or last_batch 5) (7 / 1000) w3 of
                                              (Raise e, w4) \<Rightarrow> (Raise e, self, w4)
                                            | (Return predicted_size, w4) \<Rightarrow>
                                                (Return predicted_size,
                                                 self\<lparr>stats := (stats self)\<lparr>ml_predictions_used :=
                                                          ml_predictions_used (stats self) + 1\<rparr>\<rparr>,
                                                 py_print
                                                   (''ML prediction: batch_size = {}(queue: {} events, {}KB)'',
                                                    [I predicted_size, I unprocessed_count,
                                                     F total_data_kb]) w4)))))))"

text \<open>The statistics update of both loops after a non-empty result.\<close>

definition record_batch ::
  "batch_result \<Rightarrow> rat \<Rightarrow> 'a worker_stats_scheme \<Rightarrow> 'a worker_stats_scheme" where
  "record_batch result now st =
     st\<lparr>total_batches_processed := total_batches_processed st + 1,
        total_events_processed := total_events_processed st + r_events_processed result,
        total_cost := total_cost st + r_cost result,
        last_batch_at := Some now\<rparr>"

text \<open>How one pass through the body of \<open>while self.is_running\<close> ends: at the loop test
  again, at a \<open>break\<close>, or with an exception leaving the loop.\<close>

datatype control = Continue | Break | Propagate exn

text \<open>The \<open>try\<close> block of \<open>BackgroundWorker._worker_loop\<close>.\<close>

definition worker_try ::
  "env \<Rightarrow> BackgroundWorker \<times> world \<Rightarrow> unit outcome \<times> BackgroundWorker \<times> world" where
  "worker_try en s =
     (case s of (self, w) \<Rightarrow>
        (case process_batch en (processor self) w of
           (Raise e, w1) \<Rightarrow> (Raise e, self, w1)
         | (Return result, w1) \<Rightarrow>
             (let (self1, w2) =
                (case result of
                   Some r \<Rightarrow>
                     (let self1 = self\<lparr>stats := record_batch r (clock w1) (stats self)\<rparr>
                      in (self1,
                          py_print (''Total cost: ${}'', [F (total_cost (stats self1))])
                            (py_print (''Total events: {}'', [I (total_events_processed (stats self1))])
                              (py_print ('' Total batches: {}'',
                                          [I (total_batches_processed (stats self1))])
                                (py_print (''Worker Stats:'', []) w1)))))
                 | None \<Rightarrow>
                     (self, py_print (''No events to process. Waiting {}s...'',
                                      [I (interval_seconds self)]) w1))
              in case sleep (of_int (interval_seconds self1)) w2 of
                   (Raise e, w3) \<Rightarrow> (Raise e, self1, w3)
                 | (Return _, w3) \<Rightarrow> (Return (), self1, w3))))"

text \<open>The \<open>except\<close> clauses of \<open>BackgroundWorker._worker_loop\<close>: \<open>KeyboardInterrupt\<close>
  breaks out of the loop; any \<open>Exception\<close> is printed and the loop sleeps and goes on.
  An exception raised inside a handler leaves the loop.\<close>

definition worker_except ::
  "exn \<Rightarrow> BackgroundWorker \<times> world \<Rightarrow> control \<times> BackgroundWorker \<times> world" where
  "worker_except e s =
     (case s of (self, w) \<Rightarrow>
        if e = KeyboardInterrupt
        then (Break, self, py_print ('' Worker interrupted by user'', []) w)
        else
          (let w1 = py_print (''Retrying in {}s...'', [I (interval_seconds self)])
                      (py_print (''Error in worker loop: {}'', [X e]) w)
           in case sleep (of_int (interval_seconds self)) w1 of
                (Raise e1, w2) \<Rightarrow> (Propagate e1, self, w2)
              | (Return _, w2) \<Rightarrow> (Continue, self, w2)))"

definition worker_iteration ::
  "env \<Rightarrow> BackgroundWorker \<times> world \<Rightarrow> control \<times> BackgroundWorker \<times> world" where
  "worker_iteration en s =
     (case worker_try en s of
        (Return _, s1) \<Rightarrow> (Continue, s1)
      | (Raise e, s1) \<Rightarrow> worker_except e s1)"

text \<open>The \<open>try\<close> block of \<open>SmartBackGroundWorker._worker_loop\<close>.\<close>

definition smart_try ::
  "env \<Rightarrow> SmartBackGroundWorker \<times> world \<Rightarrow> unit outcome \<times> SmartBackGroundWorker \<times> world" where
  "smart_try en s =
     (case s of (self, w) \<Rightarrow>
        (case get_smart_batch_size en self w of
           (Raise e, self1, w1) \<Rightarrow> (Raise e, self1, w1)
         | (Return bs, self1, w1) \<Rightarrow>
             (let (processor, w2) = BatchProcessor_init bs w1
              in case process_batch en processor w2 of
                   (Raise e, w3) \<Rightarrow> (Raise e, self1, w3)
                 | (Return result, w3) \<Rightarrow>
                     (let (self2, w4) =
                        (case result of
                           Some r \<Rightarrow>
                             (let self2 = self1\<lparr>stats := record_batch r (clock w3) (stats self1)\<rparr>
                              in (self2,
                                  py_print (''  ML predictions: {}'',
                                            [I (ml_predictions_used (stats self2))])
                                    (py_print (''  total cost: ${}'', [F (total_cost (stats self2))])
                                      (py_print (''  total events: {}'',
                                                 [I (total_events_processed (stats self2))])
                                        (py_print (''  total batches: {}'',
                                                   [I (total_batches_processed (stats self2))])
                                          (py_print (''worker stats'', []) w3))))))
                         | None \<Rightarrow>
                             (self1, py_print (''   no events to process.waiting {}s..'',
                                               [I (interval_seconds self1)]) w3))
                      in case sleep (of_int (interval_seconds self2)) w4 of
                           (Raise e, w5) \<Rightarrow> (Raise e, self2, w5)
                         | (Return _, w5) \<Rightarrow> (Return (), self2, w5)))))"

text \<open>The \<open>except\<close> clauses of \<open>SmartBackGroundWorker._worker_loop\<close>. The
  \<open>KeyboardInterrupt\<close> clause formats \<open>e\<close>, a local name that is not bound there, so the
  clause itself raises \<open>UnboundLocalError\<close>, which leaves the loop.\<close>

definition smart_except ::
  "exn \<Rightarrow> SmartBackGroundWorker \<times> world \<Rightarrow> control \<times> SmartBackGroundWorker \<times> world" where
  "smart_except e s =
     (case s of (self, w) \<Rightarrow>
        if e = KeyboardInterrupt
        then (Propagate UnboundLocalError, self, w)
        else
          (let w1 = py_print ('' retrying in {}s..'', [I (interval_seconds self)])
                      (py_print (''  Error in worker loop: {}'', [X e]) w)
           in case sleep (of_int (interval_seconds self)) w1 of
                (Raise e1, w2) \<Rightarrow> (Propagate e1, self, w2)
              | (Return _, w2) \<Rightarrow> (Continue, self, w2)))"

definition smart_iteration ::
  "env \<Rightarrow> SmartBackGroundWorker \<times> world \<Rightarrow> control \<times> SmartBackGroundWorker \<times> world" where
  "smart_iteration en s =
     (case smart_try en s of
        (Return _, s1) \<Rightarrow> (Continue, s1)
      | (Raise e, s1) \<Rightarrow> smart_except e s1)"

text \<open>
  \<open>while self.is_running:\<close> with the \<open>try\<close> statement as its body. The loop runs
  for as long as the flag stays set, so it is run here against a finite script, one
  \<open>env\<close> per pass: \<open>Exited\<close> is the loop left at its test or by \<open>break\<close>,
  \<open>Unwound e\<close> an exception leaving it, and \<open>Pending\<close> the script used up with the
  loop still going. The flag is cleared only from outside, by \<open>stop()\<close> on another thread.
\<close>

datatype loop_end = Exited | Unwound exn | Pending

fun iterate ::
  "(env \<Rightarrow> ('s, 'z) worker_base_scheme \<times> world
        \<Rightarrow> control \<times> ('s, 'z) worker_base_scheme \<times> world)
   \<Rightarrow> env list \<Rightarrow> ('s, 'z) worker_base_scheme \<times> world
   \<Rightarrow> loop_end \<times> ('s, 'z) worker_base_scheme \<times> world" where
  "iterate body [] (self, w) = ((if is_running self then Pending else Exited), self, w)"
| "iterate body (en # ens) (self, w) =
     (if \<not> is_running self then (Exited, self, w)
      else case body en (self, w) of
             (Continue, self1, w1) \<Rightarrow>
               iterate body ens (self1\<lparr>is_running := is_running self1 \<and> \<not> stop_called en\<rparr>, w1)
           | (Break, self1, w1) \<Rightarrow> (Exited, self1, w1)
           | (Propagate e, self1, w1) \<Rightarrow> (Unwound e, self1, w1))"

text \<open>The lines before the loop: the banner, and \<open>self.stats['started_at'] = datetime.now()\<close>.\<close>

definition worker_loop_enter :: "BackgroundWorker \<times> world \<Rightarrow> BackgroundWorker \<times> world" where
  "worker_loop_enter s =
     (case s of (self, w) \<Rightarrow>
        (let w1 = py_print rule60
                    (py_print (''Background worker started at {}'', [F (clock w)])
                      (py_print rule60 w))
         in (self\<lparr>stats := (stats self)\<lparr>started_at := Some (clock w1)\<rparr>\<rparr>, w1)))"

definition worker_loop ::
  "env list \<Rightarrow> BackgroundWorker \<times> world \<Rightarrow> loop_end \<times> BackgroundWorker \<times> world" where
  "worker_loop ens s =
     (case iterate worker_iteration ens (worker_loop_enter s) of
        (Exited, self1, w1) \<Rightarrow>
          (Exited, self1,
           py_print rule60
             (py_print (''Background worker stopped at {}'', [F (clock w1)])
               (py_print rule60 w1)))
      | r \<Rightarrow> r)"

definition smart_worker_loop_enter ::
  "SmartBackGroundWorker \<times> world \<Rightarrow> SmartBackGroundWorker \<times> world" where
  "smart_worker_loop_enter s =
     (case s of (self, w) \<Rightarrow>
        (let w1 = py_print rule60
                    (py_print (''smart worker at {}'', [F (clock w)])
                      (py_print rule60 w))
         in (self\<lparr>stats := (stats self)\<lparr>started_at := Some (clock w1)\<rparr>\<rparr>, w1)))"

definition smart_worker_loop ::
  "env list \<Rightarrow> SmartBackGroundWorker \<times> world
   \<Rightarrow> loop_end \<times> SmartBackGroundWorker \<times> world" where
  "smart_worker_loop ens s =
     (case iterate smart_iteration ens (smart_worker_loop_enter s) of
        (Exited, self1, w1) \<Rightarrow>
          (Exited, self1,
           py_print rule60
             (py_print ('' smart worker stopped at {}'', [F (clock w1)])
               (py_print rule60 w1)))
      | r \<Rightarrow> r)"

text \<open>
  \<open>start()\<close> and \<open>stop()\<close>, called on the main thread. \<open>start\<close> returns the handle of
  the thread it started on \<open>_worker_loop\<close>, or \<open>None\<close> when the worker was running
  already. \<open>thread.join(timeout=5)\<close> in \<open>stop\<close> waits and changes nothing in the worker
  object.
\<close>

definition start :: "BackgroundWorker \<Rightarrow> world \<Rightarrow> nat option \<times> BackgroundWorker \<times> world" where
  "start self w =
     (if is_running self then (None, self, py_print ('' Worker is already running'', []) w)
      else
        (let t = threads w;
             self1 = self\<lparr>is_running := True, thread := Some t\<rparr>
         in (Some t, self1,
             py_print (''Background worker thread started'', []) (w\<lparr>threads := t + 1\<rparr>))))"

definition stop :: "BackgroundWorker \<Rightarrow> world \<Rightarrow> BackgroundWorker \<times> world" where
  "stop self w =
     (if \<not> is_running self then (self, py_print (''Worker is not running'', []) w)
      else
        (self\<lparr>is_running := False\<rparr>,
         py_print (''background worker stopped'', [])
           (py_print ('' stopping background worker'', []) w)))"

definition smart_start ::
  "SmartBackGroundWorker \<Rightarrow> world \<Rightarrow> nat option \<times> SmartBackGroundWorker \<times> world" where
  "smart_start self w =
     (if is_running self then (None, self, py_print (''worker already running'', []) w)
      else
        (let t = threads w;
             self1 = self\<lparr>is_running := True, thread := Some t\<rparr>
         in (Some t, self1,
             py_print (''Smart worker thread started'', []) (w\<lparr>threads := t + 1\<rparr>))))"

definition smart_stop :: "SmartBackGroundWorker \<Rightarrow> world \<Rightarrow> SmartBackGroundWorker \<times> world" where
  "smart_stop self w =
     (if \<not> is_running self then (self, py_print (''Worker not running!'', []) w)
      else
        (self\<lparr>is_running := False\<rparr>,
         py_print (''Smart worker stopped'', [])
           (py_print (''Stopping smart worker...'', []) w)))"

text \<open>\<open>get_stats\<close>: a copy of the counters and, once \<open>started_at\<close> is set,
  \<open>runtime_seconds\<close>.\<close>

definition get_stats ::
  "('a worker_stats_scheme, 'z) worker_base_scheme \<Rightarrow> world
   \<Rightarrow> 'a worker_stats_scheme \<times> rat option" where
  "get_stats self w =
     (let st = stats self
      in (st, case started_at st of None \<Rightarrow> None | Some t \<Rightarrow> Some (clock w - t)))"

section \<open>Names used in the statements\<close>

text \<open>What the \<open>SELECT\<close> of \<open>process_batch\<close> returns when it does not fail, and the world
  right after \<open>fetch_unprocessed_events\<close> returned it. Shorthands for the theorems; the
  source has no such functions.\<close>

definition fetched :: "env \<Rightarrow> BatchProcessor \<Rightarrow> world \<Rightarrow> event list" where
  "fetched en self w =
     take (nat (batch_size self))
       (sort_key ev_timestamp (unprocessed (others en SelectUnprocessed (db w))))"

definition after_fetch :: "env \<Rightarrow> BatchProcessor \<Rightarrow> world \<Rightarrow> world" where
  "after_fetch en self w =
     w\<lparr>db := others en SelectUnprocessed (db w),
       out := out w @ [rule60,
                      (''fetched {} unprocessed events'', [I (int (length (fetched en self w)))])]\<rparr>"

text \<open>Statistics \<open>st'\<close> continue \<open>st\<close> without a reset: the same start time, and
  no total below its earlier value.\<close>

definition never_reset :: "'a worker_stats_scheme \<Rightarrow> 'b worker_stats_scheme \<Rightarrow> bool" where
  "never_reset st st' =
     (started_at st' = started_at st
      \<and> total_batches_processed st \<le> total_batches_processed st'
      \<and> total_events_processed st \<le> total_events_processed st'
      \<and> total_cost st \<le> total_cost st')"

text \<open>\<open>stop()\<close> followed by \<open>start()\<close>.\<close>

definition restart :: "BackgroundWorker \<times> world \<Rightarrow> nat option \<times> BackgroundWorker \<times> world" where
  "restart s = (case s of (self, w) \<Rightarrow> (case stop self w of (self1, w1) \<Rightarrow> start self1 w1))"

definition smart_restart ::
  "SmartBackGroundWorker \<times> world \<Rightarrow> nat option \<times> SmartBackGroundWorker \<times> world" where
  "smart_restart s =
     (case s of (self, w) \<Rightarrow> (case smart_stop self w of (self1, w1) \<Rightarrow> smart_start self1 w1))"

section \<open>Sample inputs\<close>

text \<open>Concrete stores, environments and workers on which the theorems below are run.\<close>

definition sample_event :: "int \<Rightarrow> rat \<Rightarrow> event" where
  "sample_event i kb =
     \<lparr>ev_id = i, ev_event_id = ''evt'', ev_timestamp = of_int i, ev_event_type = ''order'',
      ev_data_size_kb = kb, ev_priority = ''low'', ev_processed = False, ev_batch_id = None\<rparr>"

definition done_batch :: batch where
  "done_batch =
     \<lparr>bt_id = 1, bt_batch_size = 10, bt_total_data_size_kb = 200, bt_started_at = 0,
      bt_status = ''completed'', bt_processing_time_seconds = Some (9 / 2),
      bt_processing_cost = Some (3 / 20), bt_completed_at = Some 5\<rparr>"

definition world_of :: "database \<Rightarrow> world" where
  "world_of d = \<lparr>db = d, clock = 0, out = [], threads = 0\<rparr>"

definition empty_db :: database where
  "empty_db = \<lparr>events = [], batches = [], cost_metrics = [], batches_id_seq = 0\<rparr>"

text \<open>One pending event of 20 KB and one completed batch.\<close>

definition busy_db :: database where
  "busy_db = \<lparr>events = [sample_event 1 20], batches = [done_batch], cost_metrics = [],
              batches_id_seq = 1\<rparr>"

text \<open>One pending event and no batch yet.\<close>

definition fresh_db :: database where
  "fresh_db = \<lparr>events = [sample_event 1 20], batches = [], cost_metrics = [],
               batches_id_seq = 0\<rparr>"

text \<open>No statement fails, no other client writes, the jitter is 1, nobody calls
  \<open>stop()\<close>.\<close>

definition quiet :: env where
  "quiet = \<lparr>fault = (\<lambda>st. None), others = (\<lambda>st d. d), jitter = 1, stop_called = False\<rparr>"

text \<open>The worker of main.py (\<open>interval_seconds=10\<close>) with no model file on disk, and with a
  model whose forest predicts 137 whatever the features.\<close>

definition untrained_worker :: SmartBackGroundWorker where
  "untrained_worker =
     fst (SmartBackGroundWorker_init \<lparr>model_pkl = None, scaler_pkl = None\<rparr> 10 (world_of empty_db))"

definition trained_worker :: SmartBackGroundWorker where
  "trained_worker =
     fst (SmartBackGroundWorker_init
            \<lparr>model_pkl = Some (\<lambda>row. 137), scaler_pkl = Some (\<lambda>row. row)\<rparr> 10
            (world_of empty_db))"

text \<open>A \<open>BackgroundWorker\<close> with the defaults of its constructor.\<close>

definition plain_worker :: BackgroundWorker where
  "plain_worker = fst (BackgroundWorker_init 50 30 (world_of empty_db))"

text \<open>The scenario of 23 pending events of 20 KB each, 460 KB in all, and no batch yet.\<close>

definition pending_23 :: database where
  "pending_23 =
     \<lparr>events = map (\<lambda>i. sample_event (int i) 20) [1..<24], batches = [], cost_metrics = [],
      batches_id_seq = 0\<rparr>"



text \<open>A worker that has been running since time 0 and has processed three batches, and
  the world at time 100.\<close>

definition seasoned_worker :: BackgroundWorker where
  "seasoned_worker =
     plain_worker\<lparr>is_running := True, thread := Some 0,
       stats := \<lparr>total_batches_processed = 3, total_events_processed = 70,
                  total_cost = 13 / 20, started_at = Some 0, last_batch_at = Some 40\<rparr>\<rparr>"

definition later_world :: world where
  "later_world = \<lparr>db = empty_db, clock = 100, out = [], threads = 1\<rparr>"


definition interrupted :: env where
  "interrupted =
     quiet\<lparr>fault := (\<lambda>st. if st = SelectUnprocessed then Some KeyboardInterrupt else None)\<rparr>"

definition running_smart_worker :: SmartBackGroundWorker where
  "running_smart_worker = untrained_worker\<lparr>is_running := True, thread := Some 0\<rparr>"



section \<open>Rounding\<close>

lemma py_round_of_int: "py_round (of_int k) = k"
  by (simp add: py_round_def)

lemma py_round_n_exact:
  assumes "x * 10 ^ n = of_int k"
  shows "py_round_n x n = x"
proof -
  have "py_round_n x n = of_int k / 10 ^ n"
    by (simp add: py_round_n_def assms py_round_of_int)
  also have "\<dots> = x"
    using assms by (simp add: field_simps)
  finally show ?thesis .
qed

lemma linear_cost_exact:
  "py_round_n (1 / 10 + 1 / 200 * of_int s) 4 = 1 / 10 + 1 / 200 * of_int s"
proof (rule py_round_n_exact)
  show "(1 / 10 + 1 / 200 * of_int s) * 10 ^ 4 = (of_int (1000 + 50 * s) :: rat)"
    by (simp add: field_simps)
qed

section \<open>The cost model\<close>

text \<open>
  C1. \<open>calculate_cost\<close> does not depend on its processing-time argument: for every
  processor, batch size and pair of durations the two calls return the same cost and print
  the same line. For a processor built by the constructor the cost is
  \<open>0.10 + 0.005 * s\<close> rounded to four decimals, and that rounding changes nothing,
  the exact value having at most three decimals.
\<close>

theorem calculate_cost_ignores_processing_time:
  "calculate_cost self s t1 w = calculate_cost self s t2 w
   \<and> fst (calculate_cost (fst (BatchProcessor_init b w0)) s t1 w)
       = Return (py_round_n (1 / 10 + 1 / 200 * of_int s) 4)
   \<and> fst (calculate_cost (fst (BatchProcessor_init b w0)) s t2 w)
       = Return (1 / 10 + 1 / 200 * of_int s)"
  using linear_cost_exact [of s]
  by (simp add: calculate_cost_def BatchProcessor_init_def Let_def)

section \<open>The sample inputs, evaluated\<close>

lemma untrained_worker_eq:
  "untrained_worker =
     \<lparr>interval_seconds = 10, is_running = False, thread = None,
      stats = \<lparr>total_batches_processed = 0, total_events_processed = 0, total_cost = 0,
                started_at = None, last_batch_at = None, ml_predictions_used = 0\<rparr>,
      optimizer = \<lparr>model = None, scaler = None, is_trained = False\<rparr>, ml_enabled = False\<rparr>"
  by (simp add: untrained_worker_def SmartBackGroundWorker_init_def BatchOptimizer_init_def
        load_model_def Let_def split_def)

lemma trained_worker_eq:
  "trained_worker =
     \<lparr>interval_seconds = 10, is_running = False, thread = None,
      stats = \<lparr>total_batches_processed = 0, total_events_processed = 0, total_cost = 0,
                started_at = None, last_batch_at = None, ml_predictions_used = 0\<rparr>,
      optimizer = \<lparr>model = Some (\<lambda>row. 137), scaler = Some (\<lambda>row. row), is_trained = True\<rparr>,
      ml_enabled = True\<rparr>"
  by (simp add: trained_worker_def SmartBackGroundWorker_init_def BatchOptimizer_init_def
        load_model_def Let_def split_def)

lemma plain_worker_eq:
  "plain_worker =
     \<lparr>interval_seconds = 30, is_running = False, thread = None,
      stats = \<lparr>total_batches_processed = 0, total_events_processed = 0, total_cost = 0,
                started_at = None, last_batch_at = None\<rparr>,
      processor = \<lparr>batch_size = 50, FIXED_COST = 1 / 10, VARIABLE_COST_PER_EVENT = 1 / 200,
                    PROCESSING_SPEED = 1 / 50\<rparr>\<rparr>"
  by (simp add: plain_worker_def BackgroundWorker_init_def BatchProcessor_init_def
        Let_def split_def)

section \<open>The predictor\<close>

lemma clamp_round_tens:
  "20 \<le> max 20 (min 200 (py_round x * 10)) \<and> max 20 (min 200 (py_round x * 10)) \<le> 200
   \<and> 10 dvd max (20::int) (min 200 (py_round x * 10))"
  by (simp add: max_def min_def)

text \<open>
  C2. For every context and every optimizer whose forest and scaler are there whenever
  \<open>is_trained\<close> is set (what \<open>train_model\<close> and \<open>load_model\<close> establish),
  \<open>predict_optimal_batch_size\<close> returns an integer between 20 and 200 that is a multiple
  of 10. The untrained optimizer is included: it returns 50.
\<close>

theorem predicted_size_in_range:
  assumes "is_trained self \<Longrightarrow> model self \<noteq> None \<and> scaler self \<noteq> None"
  shows "\<exists>n. fst (predict_optimal_batch_size self total_data_kb avg_data_per_event hour_of_day
                  last_processing_time last_cost_per_event w) = Return n
             \<and> 20 \<le> n \<and> n \<le> 200 \<and> 10 dvd n"
proof (cases "is_trained self")
  case False
  then show ?thesis by (simp add: predict_optimal_batch_size_def)
next
  case True
  with assms obtain p t where "model self = Some p" "scaler self = Some t" by auto
  with True show ?thesis
    using clamp_round_tens by (simp add: predict_optimal_batch_size_def Let_def)
qed

theorem predicted_size_in_range_witness:
  "is_trained (optimizer trained_worker)
   \<and> model (optimizer trained_worker) \<noteq> None \<and> scaler (optimizer trained_worker) \<noteq> None
   \<and> (\<exists>n. fst (predict_optimal_batch_size (optimizer trained_worker) 1500 15 14 5 (7 / 1000)
                  (world_of empty_db)) = Return n
           \<and> 20 \<le> n \<and> n \<le> 200 \<and> 10 dvd n)
   \<and> fst (predict_optimal_batch_size (optimizer trained_worker) 1500 15 14 5 (7 / 1000)
            (world_of empty_db)) = Return 140"
proof -
  have h: "model (optimizer trained_worker) \<noteq> None \<and> scaler (optimizer trained_worker) \<noteq> None"
    and t: "is_trained (optimizer trained_worker)"
    by (simp_all add: trained_worker_eq)
  have r: "\<exists>n. fst (predict_optimal_batch_size (optimizer trained_worker) 1500 15 14 5 (7 / 1000)
                  (world_of empty_db)) = Return n
           \<and> 20 \<le> n \<and> n \<le> 200 \<and> 10 dvd n"
    by (rule predicted_size_in_range) (rule h)
  have "py_round (137 / 10) = 14"
    by code_simp
  then have v: "fst (predict_optimal_batch_size (optimizer trained_worker) 1500 15 14 5 (7 / 1000)
            (world_of empty_db)) = Return 140"
    by (simp add: predict_optimal_batch_size_def Let_def trained_worker_eq)
  from h t r v show ?thesis by blast
qed

section \<open>Choosing the batch size\<close>

lemma recent_completed_Nil:
  "recent_completed d = [] \<longleftrightarrow> filter (\<lambda>b. bt_status b = ''completed'') (batches d) = []"
proof -
  have "take 1 xs = [] \<longleftrightarrow> xs = []" for xs :: "batch list"
    by (cases xs) simp_all
  then show ?thesis
    unfolding recent_completed_def
    by (metis (no_types, lifting) map_is_Nil_conv rev_is_Nil_conv length_sort length_0_conv)
qed

lemma predict_untrained:
  "\<not> is_trained opt \<Longrightarrow> fst (predict_optimal_batch_size opt a b h t c w) = Return 50"
  by (simp add: predict_optimal_batch_size_def)

lemma untrained_size:
  assumes "\<not> is_trained (optimizer self)" and "\<And>st. fault en st = None"
  shows "fst (get_smart_batch_size en self w) = Return 50"
  using assms
  by (simp add: get_smart_batch_size_def Let_def predict_optimal_batch_size_def
        split: list.splits)

text \<open>
  C3. When the optimizer is not trained, \<open>get_smart_batch_size\<close> chooses 50: it returns
  50 whenever no statement fails, and whatever fails it never returns another size. It also
  returns 50, trained or not, when the count of unprocessed events is 0 and when there is no
  completed batch. (\<open>smart_try\<close> hands the returned size to the \<open>BatchProcessor\<close> of
  the pass.)
\<close>

theorem default_size_when_not_ready:
  "(\<not> is_trained (optimizer self) \<and> (\<forall>st. fault en st = None)
      \<longrightarrow> fst (get_smart_batch_size en self w) = Return 50)
   \<and> (\<not> is_trained (optimizer self)
      \<longrightarrow> (\<forall>n. fst (get_smart_batch_size en self w) = Return n \<longrightarrow> n = 50))
   \<and> (fault en CountUnprocessed = None \<and> unprocessed (others en CountUnprocessed (db w)) = []
      \<longrightarrow> fst (get_smart_batch_size en self w) = Return 50)
   \<and> (fault en CountUnprocessed = None \<and> fault en SelectRecentBatch = None
       \<and> filter (\<lambda>b. bt_status b = ''completed'')
            (batches (others en SelectRecentBatch (others en CountUnprocessed (db w)))) = []
      \<longrightarrow> fst (get_smart_batch_size en self w) = Return 50)"
proof (intro conjI impI)
  assume "\<not> is_trained (optimizer self) \<and> (\<forall>st. fault en st = None)"
  then show "fst (get_smart_batch_size en self w) = Return 50"
    by (simp add: get_smart_batch_size_def Let_def predict_optimal_batch_size_def
          split: list.splits)
next
  assume "\<not> is_trained (optimizer self)"
  then show "\<forall>n. fst (get_smart_batch_size en self w) = Return n \<longrightarrow> n = 50"
    by (auto simp add: get_smart_batch_size_def Let_def predict_optimal_batch_size_def
          split: list.splits option.splits if_splits)
next
  assume "fault en CountUnprocessed = None \<and> unprocessed (others en CountUnprocessed (db w)) = []"
  then show "fst (get_smart_batch_size en self w) = Return 50"
    by (simp add: get_smart_batch_size_def Let_def begin_stmt_def)
next
  assume a: "fault en CountUnprocessed = None \<and> fault en SelectRecentBatch = None
       \<and> filter (\<lambda>b. bt_status b = ''completed'')
            (batches (others en SelectRecentBatch (others en CountUnprocessed (db w)))) = []"
  then have "recent_completed (others en SelectRecentBatch (others en CountUnprocessed (db w))) = []"
    by (simp add: recent_completed_Nil)
  with a show "fst (get_smart_batch_size en self w) = Return 50"
    by (simp add: get_smart_batch_size_def Let_def begin_stmt_def)
qed

theorem default_size_when_not_ready_witness:
  "\<not> is_trained (optimizer untrained_worker) \<and> (\<forall>st. fault quiet st = None)
   \<and> unprocessed (db (world_of busy_db)) \<noteq> []
   \<and> recent_completed (db (world_of busy_db)) \<noteq> []
   \<and> fst (get_smart_batch_size quiet untrained_worker (world_of busy_db)) = Return 50
   \<and> is_trained (optimizer trained_worker)
   \<and> unprocessed (others quiet CountUnprocessed (db (world_of empty_db))) = []
   \<and> fst (get_smart_batch_size quiet trained_worker (world_of empty_db)) = Return 50
   \<and> unprocessed (db (world_of fresh_db)) \<noteq> []
   \<and> filter (\<lambda>b. bt_status b = ''completed'')
        (batches (others quiet SelectRecentBatch
                    (others quiet CountUnprocessed (db (world_of fresh_db))))) = []
   \<and> fst (get_smart_batch_size quiet trained_worker (world_of fresh_db)) = Return 50"
proof -
  have a: "\<not> is_trained (optimizer untrained_worker) \<and> (\<forall>st. fault quiet st = None)"
    by (simp add: untrained_worker_eq quiet_def)
  have r1: "fst (get_smart_batch_size quiet untrained_worker (world_of busy_db)) = Return 50"
    using default_size_when_not_ready [of untrained_worker quiet "world_of busy_db"] a
    by blast
  have b: "fault quiet CountUnprocessed = None
           \<and> unprocessed (others quiet CountUnprocessed (db (world_of empty_db))) = []"
    by (simp add: quiet_def world_of_def empty_db_def unprocessed_def)
  have r2: "fst (get_smart_batch_size quiet trained_worker (world_of empty_db)) = Return 50"
    using default_size_when_not_ready [of trained_worker quiet "world_of empty_db"] b
    by blast
  have c: "fault quiet CountUnprocessed = None \<and> fault quiet SelectRecentBatch = None
           \<and> filter (\<lambda>b. bt_status b = ''completed'')
                (batches (others quiet SelectRecentBatch
                            (others quiet CountUnprocessed (db (world_of fresh_db))))) = []"
    by (simp add: quiet_def world_of_def fresh_db_def)
  have r3: "fst (get_smart_batch_size quiet trained_worker (world_of fresh_db)) = Return 50"
    using default_size_when_not_ready [of trained_worker quiet "world_of fresh_db"] c
    by blast
  have d: "unprocessed (db (world_of busy_db)) \<noteq> []"
    "recent_completed (db (world_of busy_db)) \<noteq> []"
    "unprocessed (db (world_of fresh_db)) \<noteq> []"
    "is_trained (optimizer trained_worker)"
    by (simp_all add: world_of_def busy_db_def fresh_db_def unprocessed_def sample_event_def
          recent_completed_def done_batch_def trained_worker_eq)
  from a b c d r1 r2 r3 show ?thesis by blast
qed

section \<open>The idle path\<close>

lemma process_batch_idle:
  assumes "fault en SelectUnprocessed = None" "0 \<le> batch_size self"
    and "unprocessed (others en SelectUnprocessed (db w)) = []"
  shows "process_batch en self w =
           (Return None,
            w\<lparr>db := others en SelectUnprocessed (db w),
              out := out w @ [rule60, (''no unprocessed event found'', []),
                              (''No events to process'', [])]\<rparr>)"
  using assms
  by (simp add: process_batch_def fetch_unprocessed_events_def get_unprocessed_events_def
        and_then_def begin_stmt_def py_print_def Let_def)

lemma get_smart_batch_size_idle:
  assumes "fault en CountUnprocessed = None"
    and "unprocessed (others en CountUnprocessed (db w)) = []"
  shows "get_smart_batch_size en self w =
           (Return 50, self, w\<lparr>db := others en CountUnprocessed (db w)\<rparr>)"
  using assms by (simp add: get_smart_batch_size_def begin_stmt_def Let_def)

lemma sleep_keeps_db: "db (snd (sleep t w)) = db w"
  by (simp add: sleep_def)

text \<open>
  C4. When the \<open>SELECT\<close> of \<open>process_batch\<close> finds no unprocessed event (and does not
  fail, the limit not being negative), \<open>process_batch\<close> returns \<open>None\<close> and writes
  nothing: the database is as the other clients left it, so no batch row and no cost
  metric were added. A pass of either worker loop over such a store leaves the whole
  statistics record as it was: the three totals, \<open>last_batch_at\<close>, and for the smart
  worker \<open>ml_predictions_used\<close> as well.
\<close>

theorem idle_pass_changes_nothing:
  "(fault en SelectUnprocessed = None \<and> 0 \<le> batch_size p
      \<and> unprocessed (others en SelectUnprocessed (db w)) = []
     \<longrightarrow> fst (process_batch en p w) = Return None
         \<and> db (snd (process_batch en p w)) = others en SelectUnprocessed (db w))
   \<and> (fault en SelectUnprocessed = None \<and> 0 \<le> batch_size (processor bw)
      \<and> unprocessed (others en SelectUnprocessed (db w)) = []
     \<longrightarrow> stats (fst (snd (worker_iteration en (bw, w)))) = stats bw
         \<and> db (snd (snd (worker_iteration en (bw, w)))) = others en SelectUnprocessed (db w))
   \<and> (fault en CountUnprocessed = None \<and> fault en SelectUnprocessed = None
      \<and> unprocessed (others en CountUnprocessed (db w)) = []
      \<and> unprocessed (others en SelectUnprocessed (others en CountUnprocessed (db w))) = []
     \<longrightarrow> stats (fst (snd (smart_iteration en (sw, w)))) = stats sw
         \<and> db (snd (snd (smart_iteration en (sw, w))))
             = others en SelectUnprocessed (others en CountUnprocessed (db w)))"
proof (intro conjI impI)
  assume a: "fault en SelectUnprocessed = None \<and> 0 \<le> batch_size p
      \<and> unprocessed (others en SelectUnprocessed (db w)) = []"
  then show "fst (process_batch en p w) = Return None"
    and "db (snd (process_batch en p w)) = others en SelectUnprocessed (db w)"
    by (simp_all add: process_batch_idle)
next
  assume a: "fault en SelectUnprocessed = None \<and> 0 \<le> batch_size (processor bw)
      \<and> unprocessed (others en SelectUnprocessed (db w)) = []"
  then have pb: "process_batch en (processor bw) w =
           (Return None,
            w\<lparr>db := others en SelectUnprocessed (db w),
              out := out w @ [rule60, (''no unprocessed event found'', []),
                              (''No events to process'', [])]\<rparr>)"
    by (simp add: process_batch_idle)
  show "stats (fst (snd (worker_iteration en (bw, w)))) = stats bw"
    by (simp add: worker_iteration_def worker_try_def worker_except_def pb sleep_def
          py_print_def Let_def)
  show "db (snd (snd (worker_iteration en (bw, w)))) = others en SelectUnprocessed (db w)"
    by (simp add: worker_iteration_def worker_try_def worker_except_def pb sleep_def
          py_print_def Let_def)
next
  assume a: "fault en CountUnprocessed = None \<and> fault en SelectUnprocessed = None
      \<and> unprocessed (others en CountUnprocessed (db w)) = []
      \<and> unprocessed (others en SelectUnprocessed (others en CountUnprocessed (db w))) = []"
  define w2 where "w2 = snd (BatchProcessor_init 50 (w\<lparr>db := others en CountUnprocessed (db w)\<rparr>))"
  define p2 where "p2 = fst (BatchProcessor_init 50 (w\<lparr>db := others en CountUnprocessed (db w)\<rparr>))"
  have g: "get_smart_batch_size en sw w =
           (Return 50, sw, w\<lparr>db := others en CountUnprocessed (db w)\<rparr>)"
    using a by (simp add: get_smart_batch_size_idle)
  have dbw2: "db w2 = others en CountUnprocessed (db w)"
    by (simp add: w2_def BatchProcessor_init_def Database_init_def py_print_def Let_def)
  have bs: "batch_size p2 = 50"
    by (simp add: p2_def BatchProcessor_init_def Let_def)
  have pb: "process_batch en p2 w2 =
           (Return None,
            w2\<lparr>db := others en SelectUnprocessed (db w2),
              out := out w2 @ [rule60, (''no unprocessed event found'', []),
                              (''No events to process'', [])]\<rparr>)"
    using a by (intro process_batch_idle) (simp_all add: dbw2 bs)
  have bi: "BatchProcessor_init 50 (w\<lparr>db := others en CountUnprocessed (db w)\<rparr>) = (p2, w2)"
    by (simp add: p2_def w2_def)
  show "stats (fst (snd (smart_iteration en (sw, w)))) = stats sw"
    by (simp add: smart_iteration_def smart_try_def smart_except_def g bi pb sleep_def
          py_print_def Let_def)
  show "db (snd (snd (smart_iteration en (sw, w))))
             = others en SelectUnprocessed (others en CountUnprocessed (db w))"
    by (simp add: smart_iteration_def smart_try_def smart_except_def g bi pb sleep_def
          py_print_def Let_def dbw2)
qed

theorem idle_pass_changes_nothing_witness:
  "fault quiet CountUnprocessed = None \<and> fault quiet SelectUnprocessed = None
   \<and> 0 \<le> batch_size (processor plain_worker)
   \<and> unprocessed (others quiet CountUnprocessed (db (world_of empty_db))) = []
   \<and> unprocessed (others quiet SelectUnprocessed (db (world_of empty_db))) = []
   \<and> unprocessed (others quiet SelectUnprocessed
                     (others quiet CountUnprocessed (db (world_of empty_db)))) = []
   \<and> fst (process_batch quiet (processor plain_worker) (world_of empty_db)) = Return None
   \<and> db (snd (process_batch quiet (processor plain_worker) (world_of empty_db))) = empty_db
   \<and> stats (fst (snd (worker_iteration quiet (plain_worker, world_of empty_db))))
       = stats plain_worker
   \<and> db (snd (snd (worker_iteration quiet (plain_worker, world_of empty_db)))) = empty_db
   \<and> stats (fst (snd (smart_iteration quiet (trained_worker, world_of empty_db))))
       = stats trained_worker
   \<and> db (snd (snd (smart_iteration quiet (trained_worker, world_of empty_db)))) = empty_db"
proof -
  have q: "fault quiet CountUnprocessed = None" "fault quiet SelectUnprocessed = None"
    "others quiet SelectUnprocessed = (\<lambda>d. d)" "others quiet CountUnprocessed = (\<lambda>d. d)"
    by (simp_all add: quiet_def)
  have e: "unprocessed empty_db = []" "db (world_of empty_db) = empty_db"
    by (simp_all add: unprocessed_def empty_db_def world_of_def)
  have b: "0 \<le> batch_size (processor plain_worker)"
    by (simp add: plain_worker_eq)
  have h1: "fault quiet SelectUnprocessed = None \<and> 0 \<le> batch_size (processor plain_worker)
      \<and> unprocessed (others quiet SelectUnprocessed (db (world_of empty_db))) = []"
    by (simp add: q e b)
  have h2: "fault quiet CountUnprocessed = None \<and> fault quiet SelectUnprocessed = None
      \<and> unprocessed (others quiet CountUnprocessed (db (world_of empty_db))) = []
      \<and> unprocessed (others quiet SelectUnprocessed
                        (others quiet CountUnprocessed (db (world_of empty_db)))) = []"
    by (simp add: q e)
  note t = idle_pass_changes_nothing [of quiet "processor plain_worker" "world_of empty_db"
      plain_worker trained_worker]
  from t h1 have r1: "fst (process_batch quiet (processor plain_worker) (world_of empty_db)) = Return None
      \<and> db (snd (process_batch quiet (processor plain_worker) (world_of empty_db)))
          = others quiet SelectUnprocessed (db (world_of empty_db))"
    by blast
  from t h1 have r2: "stats (fst (snd (worker_iteration quiet (plain_worker, world_of empty_db))))
       = stats plain_worker
      \<and> db (snd (snd (worker_iteration quiet (plain_worker, world_of empty_db))))
          = others quiet SelectUnprocessed (db (world_of empty_db))"
    by blast
  from t h2 have r3: "stats (fst (snd (smart_iteration quiet (trained_worker, world_of empty_db))))
       = stats trained_worker
      \<and> db (snd (snd (smart_iteration quiet (trained_worker, world_of empty_db))))
          = others quiet SelectUnprocessed (others quiet CountUnprocessed (db (world_of empty_db)))"
    by blast
  from h1 h2 r1 r2 r3 show ?thesis
    by (simp add: q e)
qed

section \<open>A batch that runs to its end\<close>

text \<open>When no statement fails and the simulated processing time is not negative,
  \<open>run_batch\<close> returns a result; its fields and the database it leaves are these.\<close>

lemma sleep_ok: "sleepable t \<Longrightarrow> sleep t w = (Return (), w\<lparr>clock := clock w + t\<rparr>)"
  by (simp add: sleep_def sleepable_def)

lemmas stmt_defs = create_batch_record_def simulate_processing_def calculate_cost_def
  mark_events_as_processed_def update_batch_record_def save_cost_metrics_def
  begin_stmt_def py_print_def lift_def and_then_def print_completed_def

lemma metrics_size_pos: "evs \<noteq> [] \<Longrightarrow> 0 < m_batch_size (calculate_batch_metrics evs)"
  by (simp add: calculate_batch_metrics_def Let_def)

lemma run_batch_db:
  assumes nf: "\<And>st. fault en st = None" and ne: "evs \<noteq> []"
    and pt: "sleepable (m_total_data_kb (calculate_batch_metrics evs) * PROCESSING_SPEED self
                        * jitter en + 1 / 2)"
  shows "db (snd (run_batch en self evs w)) =
    (let m = calculate_batch_metrics evs;
         pt = m_total_data_kb m * PROCESSING_SPEED self * jitter en + 1 / 2;
         cost = py_round_n (FIXED_COST self + VARIABLE_COST_PER_EVENT self * of_int (m_batch_size m)) 4;
         d1 = others en InsertBatch (db w);
         bid = batches_id_seq d1 + 1;
         row = \<lparr>bt_id = bid, bt_batch_size = m_batch_size m,
                 bt_total_data_size_kb = m_total_data_kb m, bt_started_at = clock w,
                 bt_status = ''processing'', bt_processing_time_seconds = None,
                 bt_processing_cost = None, bt_completed_at = None\<rparr>;
         d2 = others en UpdateEvents (d1\<lparr>batches := batches d1 @ [row], batches_id_seq := bid\<rparr>);
         d3 = others en UpdateBatch (d2\<lparr>events := map (mark_row (map ev_id evs) bid) (events d2)\<rparr>);
         d4 = others en InsertCostMetric
                (d3\<lparr>batches := map (complete_row bid (py_round_n pt 2) cost (clock w + pt)) (batches d3)\<rparr>)
     in d4\<lparr>cost_metrics := cost_metrics d4 @
            [\<lparr>cm_batch_id = bid, cm_batch_size = m_batch_size m,
              cm_total_data_kb = m_total_data_kb m,
              cm_processing_time_seconds = py_round_n pt 2,
              cm_cost_per_event = cost / of_int (m_batch_size m), cm_timestamp = clock w + pt\<rparr>]\<rparr>)"
  using ne pt metrics_size_pos [OF ne]
  by (simp add: run_batch_def stmt_defs nf py_truediv_def sleep_ok Let_def)

lemma run_batch_result:
  assumes nf: "\<And>st. fault en st = None" and ne: "evs \<noteq> []"
    and pt: "sleepable (m_total_data_kb (calculate_batch_metrics evs) * PROCESSING_SPEED self
                        * jitter en + 1 / 2)"
  shows "fst (run_batch en self evs w) =
    (let m = calculate_batch_metrics evs;
         pt = m_total_data_kb m * PROCESSING_SPEED self * jitter en + 1 / 2;
         cost = py_round_n (FIXED_COST self + VARIABLE_COST_PER_EVENT self * of_int (m_batch_size m)) 4
     in Return \<lparr>r_batch_id = batches_id_seq (others en InsertBatch (db w)) + 1,
                r_events_processed = m_batch_size m,
                r_total_data_kb = m_total_data_kb m,
                r_processing_time = py_round_n pt 2,
                r_cost = cost,
                r_cost_per_event = py_round_n (cost / of_int (m_batch_size m)) 4\<rparr>)"
  using ne pt metrics_size_pos [OF ne]
  by (simp add: run_batch_def stmt_defs nf py_truediv_def sleep_ok Let_def)


lemma process_batch_fetched:
  assumes "fault en SelectUnprocessed = None" "0 \<le> batch_size self" "fetched en self w \<noteq> []"
  shows "process_batch en self w =
           (case run_batch en self (fetched en self w) (after_fetch en self w) of
              (Raise e, w1) \<Rightarrow> (Raise e, w1)
            | (Return r, w1) \<Rightarrow> (Return (Some r), w1))"
  using assms
  by (simp add: process_batch_def fetch_unprocessed_events_def get_unprocessed_events_def
        and_then_def begin_stmt_def py_print_def lift_def Let_def fetched_def after_fetch_def
        split: prod.splits outcome.splits)


lemma sum_list_insort_key:
  "sum_list (map g (insort_key f x xs)) = g x + sum_list (map g xs)"
  for g :: "'a \<Rightarrow> rat"
  by (induction xs) simp_all

lemma sum_list_sort_key:
  "sum_list (map g (sort_key f xs)) = sum_list (map g xs)"
  for g :: "'a \<Rightarrow> rat"
  by (induction xs) (simp_all add: sum_list_insort_key)

lemma process_batch_alone:
  assumes nf: "\<And>st. fault en st = None" and al: "\<And>st d. others en st d = d"
    and bs: "0 \<le> batch_size self" and ne: "fetched en self w \<noteq> []"
    and pt: "sleepable (m_total_data_kb (calculate_batch_metrics (fetched en self w))
                        * PROCESSING_SPEED self * jitter en + 1 / 2)"
  shows "fst (process_batch en self w) = Return (Some
           (let m = calculate_batch_metrics (fetched en self w);
                pt = m_total_data_kb m * PROCESSING_SPEED self * jitter en + 1 / 2;
                cost = py_round_n (FIXED_COST self
                         + VARIABLE_COST_PER_EVENT self * of_int (m_batch_size m)) 4
            in \<lparr>r_batch_id = batches_id_seq (db w) + 1,
                r_events_processed = m_batch_size m,
                r_total_data_kb = m_total_data_kb m,
                r_processing_time = py_round_n pt 2,
                r_cost = cost,
                r_cost_per_event = py_round_n (cost / of_int (m_batch_size m)) 4\<rparr>))"
    and "events (db (snd (process_batch en self w)))
           = map (mark_row (map ev_id (fetched en self w)) (batches_id_seq (db w) + 1))
               (events (db w))"
    and "batches (db (snd (process_batch en self w)))
           = (let m = calculate_batch_metrics (fetched en self w);
                  pt = m_total_data_kb m * PROCESSING_SPEED self * jitter en + 1 / 2;
                  cost = py_round_n (FIXED_COST self
                           + VARIABLE_COST_PER_EVENT self * of_int (m_batch_size m)) 4;
                  bid = batches_id_seq (db w) + 1
              in map (complete_row bid (py_round_n pt 2) cost (clock w + pt))
                   (batches (db w) @
                    [\<lparr>bt_id = bid, bt_batch_size = m_batch_size m,
                      bt_total_data_size_kb = m_total_data_kb m, bt_started_at = clock w,
                      bt_status = ''processing'', bt_processing_time_seconds = None,
                      bt_processing_cost = None, bt_completed_at = None\<rparr>]))"
proof -
  let ?evs = "fetched en self w" and ?w = "after_fetch en self w"
  have pb: "process_batch en self w =
           (case run_batch en self ?evs ?w of
              (Raise e, w1) \<Rightarrow> (Raise e, w1)
            | (Return r, w1) \<Rightarrow> (Return (Some r), w1))"
    using nf bs ne by (intro process_batch_fetched) simp_all
  have w: "db ?w = db w" "clock ?w = clock w"
    by (simp_all add: after_fetch_def al)
  note res = run_batch_result [of en ?evs self ?w, OF nf ne pt]
  note dbr = run_batch_db [of en ?evs self ?w, OF nf ne pt]
  have ff: "fst (process_batch en self w) =
      (case fst (run_batch en self ?evs ?w) of Raise e \<Rightarrow> Raise e | Return r \<Rightarrow> Return (Some r))"
    by (simp add: pb split: prod.splits outcome.splits)
  have dd: "db (snd (process_batch en self w)) = db (snd (run_batch en self ?evs ?w))"
    by (simp add: pb split: prod.splits outcome.splits)
  show "fst (process_batch en self w) = Return (Some
           (let m = calculate_batch_metrics (fetched en self w);
                pt = m_total_data_kb m * PROCESSING_SPEED self * jitter en + 1 / 2;
                cost = py_round_n (FIXED_COST self
                         + VARIABLE_COST_PER_EVENT self * of_int (m_batch_size m)) 4
            in \<lparr>r_batch_id = batches_id_seq (db w) + 1,
                r_events_processed = m_batch_size m,
                r_total_data_kb = m_total_data_kb m,
                r_processing_time = py_round_n pt 2,
                r_cost = cost,
                r_cost_per_event = py_round_n (cost / of_int (m_batch_size m)) 4\<rparr>))"
    by (simp add: ff res w al Let_def)
  show "events (db (snd (process_batch en self w)))
           = map (mark_row (map ev_id (fetched en self w)) (batches_id_seq (db w) + 1))
               (events (db w))"
    by (simp add: dd dbr w al Let_def)
  show "batches (db (snd (process_batch en self w)))
           = (let m = calculate_batch_metrics (fetched en self w);
                  pt = m_total_data_kb m * PROCESSING_SPEED self * jitter en + 1 / 2;
                  cost = py_round_n (FIXED_COST self
                           + VARIABLE_COST_PER_EVENT self * of_int (m_batch_size m)) 4;
                  bid = batches_id_seq (db w) + 1
              in map (complete_row bid (py_round_n pt 2) cost (clock w + pt))
                   (batches (db w) @
                    [\<lparr>bt_id = bid, bt_batch_size = m_batch_size m,
                      bt_total_data_size_kb = m_total_data_kb m, bt_started_at = clock w,
                      bt_status = ''processing'', bt_processing_time_seconds = None,
                      bt_processing_cost = None, bt_completed_at = None\<rparr>]))"
    by (simp add: dd dbr w al Let_def)
qed

section \<open>The scenario of 23 pending events\<close>

lemma py_round_n_of_int: "py_round_n (of_int k) n = of_int k"
  by (rule py_round_n_exact [where k = "k * 10 ^ n"]) simp

lemma mark_row_processed: "ev_processed e \<Longrightarrow> ev_processed (mark_row ids bid e)"
  by (simp add: mark_row_def)

lemma mark_row_hit:
  "ev_id e \<in> set ids \<Longrightarrow> mark_row ids bid e = e\<lparr>ev_processed := True, ev_batch_id := Some bid\<rparr>"
  by (simp add: mark_row_def)

text \<open>
  C8. 23 pending events totalling 460 KB, no statement failing, no other client writing, a
  simulated processing time that \<open>time.sleep\<close> accepts (any jitter from 0 to \<open>10^9\<close>
  gives one), and an optimizer that is not trained: \<open>get_smart_batch_size\<close> returns 50, and
  \<open>process_batch\<close> with a processor of batch size 50 returns a result with
  \<open>events_processed = 23\<close>, \<open>total_data_kb = 460\<close> and \<open>cost = 0.215\<close>. It adds exactly
  one batch row, of size 23 and completed at that cost, under the id it returns; every
  event that was pending is afterwards processed and carries that id, and nothing is left
  pending.
\<close>

theorem scenario_23_pending:
  assumes nf: "fault en = (\<lambda>st. None)" and al: "others en = (\<lambda>st d. d)"
    and jit: "sleepable (460 * (1 / 50) * jitter en + 1 / 2)"
    and n: "length (unprocessed (db w)) = 23"
    and kb: "sum_list (map ev_data_size_kb (unprocessed (db w))) = 460"
    and ut: "\<not> is_trained (optimizer sw)"
    and p: "p = fst (BatchProcessor_init 50 w0)"
    and w': "w' = snd (process_batch en p w)"
  shows "fst (get_smart_batch_size en sw w) = Return 50
     \<and> (\<exists>r. fst (process_batch en p w) = Return (Some r)
           \<and> r_events_processed r = 23 \<and> r_total_data_kb r = 460 \<and> r_cost r = 0.215
           \<and> length (batches (db w')) = length (batches (db w)) + 1
           \<and> bt_id (last (batches (db w'))) = r_batch_id r
           \<and> bt_batch_size (last (batches (db w'))) = 23
           \<and> bt_status (last (batches (db w'))) = ''completed''
           \<and> bt_processing_cost (last (batches (db w'))) = Some 0.215
           \<and> length (events (db w')) = length (events (db w))
           \<and> (\<forall>i < length (events (db w)). \<not> ev_processed (events (db w) ! i) \<longrightarrow>
                  events (db w') ! i
                    = (events (db w) ! i)\<lparr>ev_processed := True, ev_batch_id := Some (r_batch_id r)\<rparr>)
           \<and> unprocessed (db w') = [])"
proof
  show "fst (get_smart_batch_size en sw w) = Return 50"
    by (rule untrained_size [OF ut]) (simp add: nf)
next
  have nf': "\<And>st. fault en st = None" and al': "\<And>st d. others en st d = d"
    by (simp_all add: nf al)
  have pf: "batch_size p = 50" "FIXED_COST p = 1 / 10" "VARIABLE_COST_PER_EVENT p = 1 / 200"
    "PROCESSING_SPEED p = 1 / 50"
    by (simp_all add: p BatchProcessor_init_def Let_def)
  have fe: "fetched en p w = sort_key ev_timestamp (unprocessed (db w))"
    by (simp add: fetched_def pf al' n)
  have ne: "fetched en p w \<noteq> []"
    using n by (auto simp add: fe simp flip: length_0_conv)
  have m: "m_batch_size (calculate_batch_metrics (fetched en p w)) = 23"
    "m_total_data_kb (calculate_batch_metrics (fetched en p w)) = 460"
    using py_round_n_of_int [of 460 2]
    by (simp_all add: calculate_batch_metrics_def Let_def fe n sum_list_sort_key kb)
  have pt: "sleepable (m_total_data_kb (calculate_batch_metrics (fetched en p w))
                        * PROCESSING_SPEED p * jitter en + 1 / 2)"
    using jit by (simp add: m pf)
  have cost: "py_round_n (43 / 200) 4 = 43 / 200"
    by (rule py_round_n_exact [where k = 2150]) simp
  note pb = process_batch_alone [of en p w, OF nf' al' _ ne pt]
  let ?bid = "batches_id_seq (db w) + 1"
  let ?ids = "map ev_id (fetched en p w)"
  let ?r = "\<lparr>r_batch_id = ?bid, r_events_processed = 23, r_total_data_kb = 460,
             r_processing_time = py_round_n (460 * (1 / 50) * jitter en + 1 / 2) 2,
             r_cost = 43 / 200,
             r_cost_per_event = py_round_n (43 / 200 / 23) 4\<rparr>"
  have res: "fst (process_batch en p w) = Return (Some ?r)"
    using pb(1) by (simp add: pf m cost Let_def)
  have evs: "events (db w') = map (mark_row ?ids ?bid) (events (db w))"
    using pb(2) by (simp add: pf w')
  have bts: "batches (db w') =
      map (complete_row ?bid (py_round_n (460 * (1 / 50) * jitter en + 1 / 2) 2) (43 / 200)
             (clock w + (460 * (1 / 50) * jitter en + 1 / 2)))
        (batches (db w) @
         [\<lparr>bt_id = ?bid, bt_batch_size = 23, bt_total_data_size_kb = 460,
           bt_started_at = clock w, bt_status = ''processing'',
           bt_processing_time_seconds = None, bt_processing_cost = None,
           bt_completed_at = None\<rparr>])"
    using pb(3) by (simp add: pf w' m cost Let_def)
  have ids: "set ?ids = ev_id ` {e \<in> set (events (db w)). \<not> ev_processed e}"
    by (simp add: fe unprocessed_def)
  have hit: "events (db w') ! i
      = (events (db w) ! i)\<lparr>ev_processed := True, ev_batch_id := Some ?bid\<rparr>"
    if "i < length (events (db w))" "\<not> ev_processed (events (db w) ! i)" for i
  proof -
    from that have "ev_id (events (db w) ! i) \<in> set ?ids"
      unfolding ids by (metis (mono_tags, lifting) imageI mem_Collect_eq nth_mem)
    with that(1) show ?thesis
      by (simp add: evs mark_row_hit)
  qed
  have none: "unprocessed (db w') = []"
  proof -
    have "ev_processed (mark_row ?ids ?bid e)" if "e \<in> set (events (db w))" for e
    proof (cases "ev_processed e")
      case True
      then show ?thesis by (rule mark_row_processed)
    next
      case False
      with that have "ev_id e \<in> set ?ids" unfolding ids by blast
      then show ?thesis by (simp add: mark_row_hit)
    qed
    then show ?thesis
      by (simp add: unprocessed_def evs filter_empty_conv)
  qed
  have l: "bt_id (last (batches (db w'))) = ?bid"
    "bt_batch_size (last (batches (db w'))) = 23"
    "bt_status (last (batches (db w'))) = ''completed''"
    "bt_processing_cost (last (batches (db w'))) = Some (43 / 200)"
    by (simp_all add: bts complete_row_def)
  have len: "length (batches (db w')) = length (batches (db w)) + 1"
    "length (events (db w')) = length (events (db w))"
    by (simp_all add: bts evs)
  show "\<exists>r. fst (process_batch en p w) = Return (Some r)
           \<and> r_events_processed r = 23 \<and> r_total_data_kb r = 460 \<and> r_cost r = 0.215
           \<and> length (batches (db w')) = length (batches (db w)) + 1
           \<and> bt_id (last (batches (db w'))) = r_batch_id r
           \<and> bt_batch_size (last (batches (db w'))) = 23
           \<and> bt_status (last (batches (db w'))) = ''completed''
           \<and> bt_processing_cost (last (batches (db w'))) = Some 0.215
           \<and> length (events (db w')) = length (events (db w))
           \<and> (\<forall>i < length (events (db w)). \<not> ev_processed (events (db w) ! i) \<longrightarrow>
                  events (db w') ! i
                    = (events (db w) ! i)\<lparr>ev_processed := True, ev_batch_id := Some (r_batch_id r)\<rparr>)
           \<and> unprocessed (db w') = []"
  proof (intro exI [of _ ?r] conjI allI impI)
    show "fst (process_batch en p w) = Return (Some ?r)" by (rule res)
  qed (simp_all add: l len hit none)
qed

lemma pending_23_facts:
  "length (unprocessed pending_23) = 23"
  "sum_list (map ev_data_size_kb (unprocessed pending_23)) = 460"
  by (simp_all add: pending_23_def unprocessed_def sample_event_def upt_rec)

theorem scenario_23_pending_witness:
  "fault quiet = (\<lambda>st. None) \<and> others quiet = (\<lambda>st d. d)
   \<and> sleepable (460 * (1 / 50) * jitter quiet + 1 / 2)
   \<and> length (unprocessed (db (world_of pending_23))) = 23
   \<and> sum_list (map ev_data_size_kb (unprocessed (db (world_of pending_23)))) = 460
   \<and> \<not> is_trained (optimizer untrained_worker)
   \<and> fst (get_smart_batch_size quiet untrained_worker (world_of pending_23)) = Return 50
   \<and> (\<exists>r. fst (process_batch quiet (fst (BatchProcessor_init 50 (world_of pending_23)))
                  (world_of pending_23)) = Return (Some r)
           \<and> r_events_processed r = 23 \<and> r_total_data_kb r = 460 \<and> r_cost r = 0.215)
   \<and> unprocessed (db (snd (process_batch quiet (fst (BatchProcessor_init 50 (world_of pending_23)))
                               (world_of pending_23)))) = []"
proof -
  have h: "fault quiet = (\<lambda>st. None)" "others quiet = (\<lambda>st d. d)"
    "sleepable (460 * (1 / 50) * jitter quiet + 1 / 2)"
    by (simp_all add: quiet_def sleepable_def)
  have d: "db (world_of pending_23) = pending_23"
    by (simp add: world_of_def)
  have n: "length (unprocessed (db (world_of pending_23))) = 23"
    and kb: "sum_list (map ev_data_size_kb (unprocessed (db (world_of pending_23)))) = 460"
    by (simp_all add: d pending_23_facts)
  have ut: "\<not> is_trained (optimizer untrained_worker)"
    by (simp add: untrained_worker_eq)
  note t = scenario_23_pending [OF h n kb ut refl refl, of "world_of pending_23"]
  from t h n kb ut show ?thesis by blast
qed

section \<open>The predictions-used counter\<close>

text \<open>
  C5. The claim is that \<open>ml_predictions_used\<close> grows only when a trained predictor chose the
  size. On the worker of main.py with no model on disk, one pending event and one completed
  batch, \<open>get_smart_batch_size\<close> takes the predictor's not-trained branch, returns the
  default 50 and still adds one to the counter, after printing both the fallback line and
  the \<open>ML prediction\<close> line. The flag \<open>ml_enabled\<close> that the constructor sets is not
  read on this path.
\<close>

theorem untrained_fallback_is_counted:
  "\<not> is_trained (optimizer untrained_worker) \<and> \<not> ml_enabled untrained_worker
   \<and> ml_predictions_used (stats untrained_worker) = 0
   \<and> fst (get_smart_batch_size quiet untrained_worker (world_of busy_db)) = Return 50
   \<and> ml_predictions_used
        (stats (fst (snd (get_smart_batch_size quiet untrained_worker (world_of busy_db))))) = 1
   \<and> out (snd (snd (get_smart_batch_size quiet untrained_worker (world_of busy_db))))
       = [(''  Model not trained yet, using default batch size: 50'', []),
          (''ML prediction: batch_size = {}(queue: {} events, {}KB)'', [I 50, I 1, F 20])]"
  by (simp add: untrained_worker_eq get_smart_batch_size_def predict_optimal_batch_size_def
        quiet_def world_of_def busy_db_def sample_event_def done_batch_def unprocessed_def
        recent_completed_def begin_stmt_def py_print_def py_or_def Let_def)

section \<open>What \<open>process_batch\<close> can raise, and the division in its result\<close>

lemma and_then_Return:
  "fst (and_then m f w) = Return y \<longleftrightarrow>
     (\<exists>x w1. m w = (Return x, w1) \<and> fst (f x w1) = Return y)"
  by (auto simp add: and_then_def split: prod.splits outcome.splits)

lemma and_then_Raise:
  "fst (and_then m f w) = Raise e \<longleftrightarrow>
     fst (m w) = Raise e \<or> (\<exists>x w1. m w = (Return x, w1) \<and> fst (f x w1) = Raise e)"
  by (auto simp add: and_then_def split: prod.splits outcome.splits)

lemma run_batch_size:
  assumes "fst (run_batch en self evs w) = Return r"
  shows "r_events_processed r = int (length evs)"
  using assms
  by (auto simp add: run_batch_def and_then_Return Let_def calculate_batch_metrics_def)

lemma create_batch_record_Raise:
  "fst (create_batch_record en self bs kb w) = Raise e \<Longrightarrow> fault en InsertBatch = Some e"
  by (auto simp add: create_batch_record_def py_print_def Let_def split: option.splits)

lemma simulate_processing_Raise:
  "fst (simulate_processing en self kb bs w) = Raise e \<Longrightarrow> e = ValueError \<or> e = OverflowError"
  by (auto simp add: simulate_processing_def and_then_Raise lift_def sleep_def Let_def
        split: if_splits)

lemma calculate_cost_Raise: "fst (calculate_cost self bs t w) \<noteq> Raise e"
  by (simp add: calculate_cost_def Let_def)

lemma mark_events_as_processed_Raise:
  "fst (mark_events_as_processed en self ids bid w) = Raise e \<Longrightarrow> ids \<noteq> []
   \<Longrightarrow> fault en UpdateEvents = Some e"
  by (auto simp add: mark_events_as_processed_def py_print_def Let_def
        split: option.splits if_splits)

lemma update_batch_record_Raise:
  "fst (update_batch_record en self bid t c w) = Raise e \<Longrightarrow> fault en UpdateBatch = Some e"
  by (auto simp add: update_batch_record_def py_print_def Let_def split: option.splits)

lemma save_cost_metrics_Raise:
  "fst (save_cost_metrics en self bid bs kb t c w) = Raise e
   \<Longrightarrow> fault en InsertCostMetric = Some e"
  by (auto simp add: save_cost_metrics_def py_print_def Let_def split: option.splits)

lemma run_batch_Raise:
  assumes "fst (run_batch en self evs w) = Raise e" and "evs \<noteq> []"
  shows "e = ValueError \<or> e = OverflowError \<or> (\<exists>st. fault en st = Some e)"
proof -
  have z: "py_truediv c (of_int (m_batch_size (calculate_batch_metrics evs))) \<noteq> Raise e'" for c e'
    using metrics_size_pos [OF assms(2)] by (simp add: py_truediv_def)
  from assms(2) have ids: "map ev_id evs \<noteq> []" by simp
  from assms(1) show ?thesis
    unfolding run_batch_def Let_def and_then_Raise
    by (auto simp add: lift_def z calculate_cost_Raise
          dest: create_batch_record_Raise simulate_processing_Raise
            mark_events_as_processed_Raise [OF _ ids] update_batch_record_Raise
            save_cost_metrics_Raise)
qed

lemma fetch_nonempty_result:
  assumes "fst (process_batch en self w) = Return (Some r)"
  shows "0 < r_events_processed r"
proof -
  from assms obtain evs w1 where
    g: "fst ((if evs = [] then (\<lambda>w. (Return None, py_print (''No events to process'', []) w))
              else and_then (run_batch en self evs) (\<lambda>result. lift (Return (Some result)))) w1)
        = Return (Some r)"
    unfolding process_batch_def and_then_Return by blast
  have ne: "evs \<noteq> []"
    using g by (cases "evs = []") simp_all
  with g have "fst (and_then (run_batch en self evs) (\<lambda>result. lift (Return (Some result))) w1)
      = Return (Some r)"
    by simp
  then obtain r' w2 where "run_batch en self evs w1 = (Return r', w2)"
    and "fst (lift (Return (Some r')) w2) = Return (Some r)"
    unfolding and_then_Return by blast
  then have "fst (run_batch en self evs w1) = Return r"
    by (simp add: lift_def)
  with ne show ?thesis
    by (simp add: run_batch_size)
qed

lemma fetch_unprocessed_events_Raise:
  "fst (fetch_unprocessed_events en self limit w) = Raise e
   \<Longrightarrow> e = DatabaseError \<or> fault en SelectUnprocessed = Some e"
  by (auto simp add: fetch_unprocessed_events_def get_unprocessed_events_def and_then_Raise
        Let_def split: option.splits if_splits)

lemma process_batch_Raise:
  assumes "fst (process_batch en self w) = Raise e"
  shows "e = ValueError \<or> e = OverflowError \<or> e = DatabaseError
         \<or> (\<exists>st. fault en st = Some e)"
  using assms
  unfolding process_batch_def and_then_Raise
  by (auto simp add: lift_def and_then_Raise split: if_splits
        dest: fetch_unprocessed_events_Raise run_batch_Raise)

text \<open>
  C10. The division \<open>cost / metrics['batch_size']\<close> that builds the result of
  \<open>process_batch\<close> never divides by zero: for a non-empty list of fetched events the
  divisor is their number, every result that \<open>process_batch\<close> returns has
  \<open>events_processed > 0\<close>, and unless the environment itself injects a
  \<open>ZeroDivisionError\<close> into a statement, \<open>process_batch\<close> never raises one. The empty
  list returns \<open>None\<close> before any division (\<open>process_batch_idle\<close>).
\<close>

theorem result_division_defined:
  "(evs \<noteq> [] \<longrightarrow>
      py_truediv c (of_int (m_batch_size (calculate_batch_metrics evs)))
        = Return (c / of_int (int (length evs))))
   \<and> (\<forall>r. fst (process_batch en self w) = Return (Some r) \<longrightarrow> 0 < r_events_processed r)
   \<and> ((\<forall>st. fault en st \<noteq> Some ZeroDivisionError)
        \<longrightarrow> fst (process_batch en self w) \<noteq> Raise ZeroDivisionError)"
proof (intro conjI impI allI)
  assume "evs \<noteq> []"
  then show "py_truediv c (of_int (m_batch_size (calculate_batch_metrics evs)))
        = Return (c / of_int (int (length evs)))"
    by (simp add: py_truediv_def calculate_batch_metrics_def Let_def)
next
  fix r assume "fst (process_batch en self w) = Return (Some r)"
  then show "0 < r_events_processed r" by (rule fetch_nonempty_result)
next
  assume "\<forall>st. fault en st \<noteq> Some ZeroDivisionError"
  then show "fst (process_batch en self w) \<noteq> Raise ZeroDivisionError"
    using process_batch_Raise [of en self w ZeroDivisionError] by auto
qed

theorem result_division_defined_witness:
  "[sample_event 1 20] \<noteq> []
   \<and> py_truediv 1 (of_int (m_batch_size (calculate_batch_metrics [sample_event 1 20]))) = Return 1
   \<and> (\<forall>st. fault quiet st \<noteq> Some ZeroDivisionError)
   \<and> (\<exists>r. fst (process_batch quiet (processor plain_worker) (world_of fresh_db)) = Return (Some r)
           \<and> 0 < r_events_processed r)
   \<and> fst (process_batch quiet (processor plain_worker) (world_of fresh_db))
       \<noteq> Raise ZeroDivisionError"
proof -
  note t = result_division_defined [of "[sample_event 1 20]" 1 quiet "processor plain_worker"
      "world_of fresh_db"]
  have q: "\<And>st. fault quiet st = None" "\<And>st d. others quiet st d = d" "jitter quiet = 1"
    by (simp_all add: quiet_def)
  have "0 < nat (batch_size (processor plain_worker))"
    by (simp add: plain_worker_eq)
  then have f: "fetched quiet (processor plain_worker) (world_of fresh_db) = [sample_event 1 20]"
    by (simp add: fetched_def q world_of_def fresh_db_def unprocessed_def sample_event_def)
  have pf: "batch_size (processor plain_worker) = 50"
    "PROCESSING_SPEED (processor plain_worker) = 1 / 50"
    by (simp_all add: plain_worker_eq)
  have "py_round_n 20 2 = 20"
    using py_round_n_of_int [of 20 2] by simp
  then have kb: "m_total_data_kb (calculate_batch_metrics [sample_event 1 20]) = 20"
    by (simp add: calculate_batch_metrics_def sample_event_def Let_def)
  have "\<exists>r. fst (process_batch quiet (processor plain_worker) (world_of fresh_db)) = Return (Some r)"
    by (subst process_batch_alone(1)) (simp_all add: q f kb pf sleepable_def)
  then obtain r where r: "fst (process_batch quiet (processor plain_worker) (world_of fresh_db))
      = Return (Some r)" ..
  with t have "0 < r_events_processed r" by blast
  with r have e: "\<exists>r. fst (process_batch quiet (processor plain_worker) (world_of fresh_db))
      = Return (Some r) \<and> 0 < r_events_processed r" by blast
  have h: "\<forall>st. fault quiet st \<noteq> Some ZeroDivisionError"
    by (simp add: q)
  with t have n: "fst (process_batch quiet (processor plain_worker) (world_of fresh_db))
       \<noteq> Raise ZeroDivisionError" by blast
  from t have "py_truediv 1 (of_int (m_batch_size (calculate_batch_metrics [sample_event 1 20])))
      = Return (1 / of_int (int (length [sample_event 1 20])))" by blast
  then have d: "py_truediv 1 (of_int (m_batch_size (calculate_batch_metrics [sample_event 1 20])))
      = Return 1" by simp
  from e h n d show ?thesis by simp
qed

section \<open>Fewer rows marked than claimed\<close>










section \<open>Restarting a worker\<close>

lemma restart_simps:
  "fst (restart (self, w)) = Some (threads w)"
  "is_running (fst (snd (restart (self, w))))"
  "stats (fst (snd (restart (self, w)))) = stats self"
  "processor (fst (snd (restart (self, w)))) = processor self"
  "clock (snd (snd (restart (self, w)))) = clock w"
  by (simp_all add: restart_def start_def stop_def py_print_def Let_def)

lemma smart_restart_simps:
  "fst (smart_restart (self, w)) = Some (threads w)"
  "is_running (fst (snd (smart_restart (self, w))))"
  "stats (fst (snd (smart_restart (self, w)))) = stats self"
  "clock (snd (snd (smart_restart (self, w)))) = clock w"
  by (simp_all add: smart_restart_def smart_start_def smart_stop_def py_print_def Let_def)

lemma worker_loop_enter_stats:
  "stats (fst (worker_loop_enter s)) = (stats (fst s))\<lparr>started_at := Some (clock (snd s))\<rparr>"
  by (simp add: worker_loop_enter_def py_print_def Let_def split: prod.splits)

lemma smart_worker_loop_enter_stats:
  "stats (fst (smart_worker_loop_enter s))
     = (stats (fst s))\<lparr>started_at := Some (clock (snd s))\<rparr>"
  by (simp add: smart_worker_loop_enter_def py_print_def Let_def split: prod.splits)

lemma worker_loop_enter_processor:
  "processor (fst (worker_loop_enter s)) = processor (fst s)"
  by (simp add: worker_loop_enter_def py_print_def Let_def split: prod.splits)

lemma py_round_nonneg: "0 \<le> x \<Longrightarrow> 0 \<le> py_round x"
  by (auto simp add: py_round_def Let_def)

lemma py_round_n_nonneg: "0 \<le> x \<Longrightarrow> 0 \<le> py_round_n x n"
  by (simp add: py_round_n_def py_round_nonneg)

lemma run_batch_cost:
  assumes "fst (run_batch en self evs w) = Return r"
  shows "r_cost r = py_round_n (FIXED_COST self
                      + VARIABLE_COST_PER_EVENT self * of_int (int (length evs))) 4"
  using assms
  by (auto simp add: run_batch_def and_then_Return Let_def calculate_batch_metrics_def
        calculate_cost_def)

lemma process_batch_Some:
  assumes "fst (process_batch en self w) = Return (Some r)"
  shows "\<exists>evs :: event list. evs \<noteq> [] \<and> r_events_processed r = int (length evs)
           \<and> r_cost r = py_round_n (FIXED_COST self
                           + VARIABLE_COST_PER_EVENT self * of_int (int (length evs))) 4"
proof -
  from assms obtain evs w1 where
    g: "fst ((if evs = [] then (\<lambda>w. (Return None, py_print (''No events to process'', []) w))
              else and_then (run_batch en self evs) (\<lambda>result. lift (Return (Some result)))) w1)
        = Return (Some r)"
    unfolding process_batch_def and_then_Return by blast
  have ne: "evs \<noteq> []"
    using g by (cases "evs = []") simp_all
  with g have "fst (and_then (run_batch en self evs) (\<lambda>result. lift (Return (Some result))) w1)
      = Return (Some r)"
    by simp
  then obtain r' w2 where "run_batch en self evs w1 = (Return r', w2)"
    and "fst (lift (Return (Some r')) w2) = Return (Some r)"
    unfolding and_then_Return by blast
  then have rr: "fst (run_batch en self evs w1) = Return r"
    by (simp add: lift_def)
  show ?thesis
  proof (rule exI [of _ evs], intro conjI)
    show "evs \<noteq> []" by (rule ne)
    show "r_events_processed r = int (length evs)" by (rule run_batch_size [OF rr])
    show "r_cost r = py_round_n (FIXED_COST self
                      + VARIABLE_COST_PER_EVENT self * of_int (int (length evs))) 4"
      by (rule run_batch_cost [OF rr])
  qed
qed

lemma never_reset_refl: "never_reset st st"
  by (simp add: never_reset_def)

lemma never_reset_trans: "never_reset a b \<Longrightarrow> never_reset b c \<Longrightarrow> never_reset a c"
  unfolding never_reset_def by (elim conjE, intro conjI) (simp, (erule order_trans, assumption)+)

lemma never_reset_record_batch:
  "0 \<le> r_events_processed r \<Longrightarrow> 0 \<le> r_cost r \<Longrightarrow> never_reset st (record_batch r t st)"
  by (simp add: never_reset_def record_batch_def)

lemma process_batch_adds:
  assumes "fst (process_batch en self w) = Return (Some r)"
    and "0 \<le> FIXED_COST self" "0 \<le> VARIABLE_COST_PER_EVENT self"
  shows "never_reset st (record_batch r t st)"
proof -
  from process_batch_Some [OF assms(1)] obtain evs :: "event list" where
    "r_events_processed r = int (length evs)"
    "r_cost r = py_round_n (FIXED_COST self
                  + VARIABLE_COST_PER_EVENT self * of_int (int (length evs))) 4"
    by blast
  with assms(2,3) show ?thesis
    by (intro never_reset_record_batch) (simp_all add: py_round_n_nonneg)
qed

lemma worker_try_never_reset:
  assumes "0 \<le> FIXED_COST (processor self)" "0 \<le> VARIABLE_COST_PER_EVENT (processor self)"
  shows "never_reset (stats self) (stats (fst (snd (worker_try en (self, w)))))
         \<and> processor (fst (snd (worker_try en (self, w)))) = processor self"
proof (cases "process_batch en (processor self) w")
  case (Pair o1 w1)
  show ?thesis
  proof (cases o1)
    case (Raise e)
    with Pair show ?thesis by (simp add: worker_try_def never_reset_refl)
  next
    case (Return res)
    show ?thesis
    proof (cases res)
      case None
      with Pair Return show ?thesis
        by (simp add: worker_try_def Let_def never_reset_refl split: prod.splits outcome.splits)
    next
      case (Some r)
      with Pair Return have "fst (process_batch en (processor self) w) = Return (Some r)"
        by simp
      then have "never_reset (stats self) (record_batch r (clock w1) (stats self))"
        using assms by (rule process_batch_adds)
      with Pair Return Some show ?thesis
        by (simp add: worker_try_def Let_def split: prod.splits outcome.splits)
    qed
  qed
qed

lemma worker_except_same:
  "stats (fst (snd (worker_except e (self, w)))) = stats self"
  "processor (fst (snd (worker_except e (self, w)))) = processor self"
  by (simp_all add: worker_except_def Let_def split: prod.splits outcome.splits)

lemma worker_iteration_never_reset:
  assumes "0 \<le> FIXED_COST (processor self)" "0 \<le> VARIABLE_COST_PER_EVENT (processor self)"
  shows "never_reset (stats self) (stats (fst (snd (worker_iteration en (self, w)))))
         \<and> processor (fst (snd (worker_iteration en (self, w)))) = processor self"
proof (cases "worker_try en (self, w)")
  case (fields o1 self1 w1)
  with worker_try_never_reset [OF assms, of en w] worker_except_same [of _ self1 w1]
  show ?thesis
    by (cases o1) (simp_all add: worker_iteration_def)
qed

lemma iterate_worker_never_reset:
  assumes "0 \<le> FIXED_COST (processor self)" "0 \<le> VARIABLE_COST_PER_EVENT (processor self)"
  shows "never_reset (stats self) (stats (fst (snd (iterate worker_iteration ens (self, w)))))"
  using assms
proof (induction ens arbitrary: self w)
  case Nil
  then show ?case by (simp add: never_reset_refl)
next
  case (Cons en ens)
  show ?case
  proof (cases "is_running self")
    case False
    then show ?thesis by (simp add: never_reset_refl)
  next
    case True
    obtain c self1 w1 where it: "worker_iteration en (self, w) = (c, self1, w1)"
      by (cases "worker_iteration en (self, w)")
    from worker_iteration_never_reset [OF Cons.prems, of en w] it
    have nr: "never_reset (stats self) (stats self1)" and pr: "processor self1 = processor self"
      by simp_all
    show ?thesis
    proof (cases c)
      case Continue
      let ?s = "self1\<lparr>is_running := is_running self1 \<and> \<not> stop_called en\<rparr>"
      have "never_reset (stats ?s) (stats (fst (snd (iterate worker_iteration ens (?s, w1)))))"
        by (rule Cons.IH) (simp_all add: pr Cons.prems)
      then have "never_reset (stats self1)
          (stats (fst (snd (iterate worker_iteration ens (?s, w1)))))"
        by simp
      with nr have "never_reset (stats self)
          (stats (fst (snd (iterate worker_iteration ens (?s, w1)))))"
        by (rule never_reset_trans)
      with True it Continue show ?thesis by simp
    next
      case Break
      with True it nr show ?thesis by simp
    next
      case (Propagate e)
      with True it nr show ?thesis by simp
    qed
  qed
qed

lemma get_smart_batch_size_never_reset:
  "never_reset (stats self) (stats (fst (snd (get_smart_batch_size en self w))))"
  by (simp add: get_smart_batch_size_def Let_def never_reset_def
        split: option.splits list.splits prod.splits outcome.splits)

lemma smart_try_never_reset:
  "never_reset (stats self) (stats (fst (snd (smart_try en (self, w)))))"
proof (cases "get_smart_batch_size en self w")
  case (fields o1 self1 w1)
  from get_smart_batch_size_never_reset [of self en w] fields
  have nr: "never_reset (stats self) (stats self1)" by simp
  show ?thesis
  proof (cases o1)
    case (Raise e)
    with fields nr show ?thesis by (simp add: smart_try_def)
  next
    case (Return bs)
    obtain p w2 where bi: "BatchProcessor_init bs w1 = (p, w2)"
      by (cases "BatchProcessor_init bs w1")
    then have pc: "0 \<le> FIXED_COST p" "0 \<le> VARIABLE_COST_PER_EVENT p"
      by (auto simp add: BatchProcessor_init_def Let_def)
    obtain o2 w3 where pb: "process_batch en p w2 = (o2, w3)"
      by (cases "process_batch en p w2")
    show ?thesis
    proof (cases o2)
      case (Raise e)
      with fields Return bi pb nr show ?thesis by (simp add: smart_try_def)
    next
      case r2: (Return res)
      show ?thesis
      proof (cases res)
        case None
        with fields Return bi pb r2 nr show ?thesis
          by (simp add: smart_try_def Let_def split: prod.splits outcome.splits)
      next
        case (Some r)
        with pb r2 have "fst (process_batch en p w2) = Return (Some r)" by simp
        then have "never_reset (stats self1) (record_batch r (clock w3) (stats self1))"
          using pc by (rule process_batch_adds)
        with nr have "never_reset (stats self) (record_batch r (clock w3) (stats self1))"
          by (rule never_reset_trans)
        with fields Return bi pb r2 Some show ?thesis
          by (simp add: smart_try_def Let_def split: prod.splits outcome.splits)
      qed
    qed
  qed
qed

lemma smart_except_same:
  "stats (fst (snd (smart_except e (self, w)))) = stats self"
  by (simp add: smart_except_def Let_def split: prod.splits outcome.splits)

lemma smart_iteration_never_reset:
  "never_reset (stats self) (stats (fst (snd (smart_iteration en (self, w)))))"
proof (cases "smart_try en (self, w)")
  case (fields o1 self1 w1)
  with smart_try_never_reset [of self en w] smart_except_same [of _ self1 w1]
  show ?thesis
    by (cases o1) (simp_all add: smart_iteration_def)
qed

lemma iterate_smart_never_reset:
  "never_reset (stats self) (stats (fst (snd (iterate smart_iteration ens (self, w)))))"
proof (induction ens arbitrary: self w)
  case Nil
  then show ?case by (simp add: never_reset_refl)
next
  case (Cons en ens)
  show ?case
  proof (cases "is_running self")
    case False
    then show ?thesis by (simp add: never_reset_refl)
  next
    case True
    obtain c self1 w1 where it: "smart_iteration en (self, w) = (c, self1, w1)"
      by (cases "smart_iteration en (self, w)")
    from smart_iteration_never_reset [of self en w] it
    have nr: "never_reset (stats self) (stats self1)"
      by simp
    show ?thesis
    proof (cases c)
      case Continue
      let ?s = "self1\<lparr>is_running := is_running self1 \<and> \<not> stop_called en\<rparr>"
      have "never_reset (stats ?s) (stats (fst (snd (iterate smart_iteration ens (?s, w1)))))"
        by (rule Cons.IH)
      then have "never_reset (stats self1)
          (stats (fst (snd (iterate smart_iteration ens (?s, w1)))))"
        by simp
      with nr have "never_reset (stats self)
          (stats (fst (snd (iterate smart_iteration ens (?s, w1)))))"
        by (rule never_reset_trans)
      with True it Continue show ?thesis by simp
    next
      case Break
      with True it nr show ?thesis by simp
    next
      case (Propagate e)
      with True it nr show ?thesis by simp
    qed
  qed
qed


lemma worker_loop_stats:
  "stats (fst (snd (worker_loop ens s)))
     = stats (fst (snd (iterate worker_iteration ens (worker_loop_enter s))))"
  by (simp add: worker_loop_def split: prod.splits loop_end.splits)

lemma smart_worker_loop_stats:
  "stats (fst (snd (smart_worker_loop ens s)))
     = stats (fst (snd (iterate smart_iteration ens (smart_worker_loop_enter s))))"
  by (simp add: smart_worker_loop_def split: prod.splits loop_end.splits)

text \<open>
  C9. \<open>stop()\<close> followed by \<open>start()\<close> always starts a new loop thread and leaves the
  worker running. When that thread enters \<open>_worker_loop\<close> the statistics are those from
  before the \<open>stop()\<close> with only \<open>started_at\<close> replaced by the time of the restart, so
  \<open>runtime_seconds\<close> of \<open>get_stats\<close> counts from the restart while
  \<open>total_batches_processed\<close>, \<open>total_events_processed\<close>, \<open>total_cost\<close> (and
  \<open>last_batch_at\<close>) keep their values. However long the new loop then runs, the start
  time stays and no total falls below its value (for \<open>BackgroundWorker\<close>, whose
  processor is a field, given that its two cost constants are not negative). Both worker
  classes.
\<close>

theorem restart_resets_start_time_only:
  fixes bw :: BackgroundWorker and sw :: SmartBackGroundWorker and w v :: world
  defines "bw2 \<equiv> fst (snd (restart (bw, w)))" and "w2 \<equiv> snd (snd (restart (bw, w)))"
    and "sw2 \<equiv> fst (snd (smart_restart (sw, v)))" and "v2 \<equiv> snd (snd (smart_restart (sw, v)))"
  shows "fst (restart (bw, w)) = Some (threads w) \<and> is_running bw2
    \<and> stats (fst (worker_loop_enter (bw2, w2))) = (stats bw)\<lparr>started_at := Some (clock w)\<rparr>
    \<and> snd (get_stats (fst (worker_loop_enter (bw2, w2))) later) = Some (clock later - clock w)
    \<and> (0 \<le> FIXED_COST (processor bw) \<and> 0 \<le> VARIABLE_COST_PER_EVENT (processor bw) \<longrightarrow>
         never_reset ((stats bw)\<lparr>started_at := Some (clock w)\<rparr>)
           (stats (fst (snd (worker_loop ens (bw2, w2))))))
    \<and> fst (smart_restart (sw, v)) = Some (threads v) \<and> is_running sw2
    \<and> stats (fst (smart_worker_loop_enter (sw2, v2))) = (stats sw)\<lparr>started_at := Some (clock v)\<rparr>
    \<and> snd (get_stats (fst (smart_worker_loop_enter (sw2, v2))) later) = Some (clock later - clock v)
    \<and> never_reset ((stats sw)\<lparr>started_at := Some (clock v)\<rparr>)
          (stats (fst (snd (smart_worker_loop ens (sw2, v2)))))"
proof -
  have b: "stats (fst (worker_loop_enter (bw2, w2))) = (stats bw)\<lparr>started_at := Some (clock w)\<rparr>"
    by (simp add: bw2_def w2_def worker_loop_enter_stats restart_simps)
  have s: "stats (fst (smart_worker_loop_enter (sw2, v2))) = (stats sw)\<lparr>started_at := Some (clock v)\<rparr>"
    by (simp add: sw2_def v2_def smart_worker_loop_enter_stats smart_restart_simps)
  have bl: "never_reset ((stats bw)\<lparr>started_at := Some (clock w)\<rparr>)
           (stats (fst (snd (worker_loop ens (bw2, w2)))))"
    if "0 \<le> FIXED_COST (processor bw) \<and> 0 \<le> VARIABLE_COST_PER_EVENT (processor bw)"
  proof -
    obtain bw3 w3 where e: "worker_loop_enter (bw2, w2) = (bw3, w3)"
      by (cases "worker_loop_enter (bw2, w2)")
    have p: "processor bw3 = processor bw"
      using worker_loop_enter_processor [of "(bw2, w2)"] e
      by (simp add: bw2_def restart_simps)
    have "never_reset (stats bw3) (stats (fst (snd (iterate worker_iteration ens (bw3, w3)))))"
      by (rule iterate_worker_never_reset) (simp_all add: p that)
    moreover have "stats bw3 = (stats bw)\<lparr>started_at := Some (clock w)\<rparr>"
      using b e by simp
    ultimately show ?thesis
      by (simp add: worker_loop_stats e)
  qed
  have sl: "never_reset ((stats sw)\<lparr>started_at := Some (clock v)\<rparr>)
          (stats (fst (snd (smart_worker_loop ens (sw2, v2)))))"
  proof -
    obtain sw3 v3 where e: "smart_worker_loop_enter (sw2, v2) = (sw3, v3)"
      by (cases "smart_worker_loop_enter (sw2, v2)")
    have "never_reset (stats sw3) (stats (fst (snd (iterate smart_iteration ens (sw3, v3)))))"
      by (rule iterate_smart_never_reset)
    moreover have "stats sw3 = (stats sw)\<lparr>started_at := Some (clock v)\<rparr>"
      using s e by simp
    ultimately show ?thesis
      by (simp add: smart_worker_loop_stats e)
  qed
  show ?thesis
    using bl sl
    by (simp add: b s get_stats_def Let_def)
       (simp add: bw2_def sw2_def restart_simps smart_restart_simps)
qed


theorem restart_resets_start_time_only_witness:
  "0 \<le> FIXED_COST (processor seasoned_worker)
   \<and> 0 \<le> VARIABLE_COST_PER_EVENT (processor seasoned_worker)
   \<and> started_at (stats seasoned_worker) = Some 0
   \<and> stats (fst (worker_loop_enter (snd (restart (seasoned_worker, later_world)))))
       = \<lparr>total_batches_processed = 3, total_events_processed = 70, total_cost = 13 / 20,
          started_at = Some 100, last_batch_at = Some 40\<rparr>
   \<and> never_reset
         \<lparr>total_batches_processed = 3, total_events_processed = 70, total_cost = 13 / 20,
          started_at = Some 100, last_batch_at = Some 40\<rparr>
         (stats (fst (snd (worker_loop [quiet, quiet] (snd (restart (seasoned_worker, later_world)))))))"
proof -
  have c: "0 \<le> FIXED_COST (processor seasoned_worker)
           \<and> 0 \<le> VARIABLE_COST_PER_EVENT (processor seasoned_worker)"
    by (simp add: seasoned_worker_def plain_worker_eq)
  have st: "stats seasoned_worker
       = \<lparr>total_batches_processed = 3, total_events_processed = 70, total_cost = 13 / 20,
          started_at = Some 0, last_batch_at = Some 40\<rparr>"
    by (simp add: seasoned_worker_def)
  have k: "clock later_world = 100"
    by (simp add: later_world_def)
  note t = restart_resets_start_time_only [of seasoned_worker later_world _ "[quiet, quiet]"]
  from t c have
    "stats (fst (worker_loop_enter (snd (restart (seasoned_worker, later_world)))))
       = (stats seasoned_worker)\<lparr>started_at := Some (clock later_world)\<rparr>"
    and "never_reset ((stats seasoned_worker)\<lparr>started_at := Some (clock later_world)\<rparr>)
         (stats (fst (snd (worker_loop [quiet, quiet] (snd (restart (seasoned_worker, later_world)))))))"
    by simp_all
  with c show ?thesis
    by (simp add: st k)
qed

section \<open>Exceptions inside one pass of the loop\<close>






















lemma running_smart_worker_eq:
  "running_smart_worker =
     \<lparr>interval_seconds = 10, is_running = True, thread = Some 0,
      stats = \<lparr>total_batches_processed = 0, total_events_processed = 0, total_cost = 0,
                started_at = None, last_batch_at = None, ml_predictions_used = 0\<rparr>,
      optimizer = \<lparr>model = None, scaler = None, is_trained = False\<rparr>, ml_enabled = False\<rparr>"
  by (simp add: running_smart_worker_def untrained_worker_eq)

lemma failed_select:
  "fault en SelectUnprocessed = Some e \<Longrightarrow> fst (process_batch en p w) = Raise e"
  by (simp add: process_batch_def fetch_unprocessed_events_def get_unprocessed_events_def
        and_then_def Let_def)


lemma smart_try_failed_select:
  assumes "fault en SelectUnprocessed = Some e" "fault en CountUnprocessed = None"
    and "unprocessed (others en CountUnprocessed (db w)) = []"
  shows "fst (smart_try en (sw, w)) = Raise e"
proof -
  obtain p w2 where bi: "BatchProcessor_init 50 (w\<lparr>db := others en CountUnprocessed (db w)\<rparr>) = (p, w2)"
    by (cases "BatchProcessor_init 50 (w\<lparr>db := others en CountUnprocessed (db w)\<rparr>)")
  from failed_select [OF assms(1), of p w2] show ?thesis
    by (cases "process_batch en p w2")
       (simp add: smart_try_def get_smart_batch_size_idle [OF assms(2,3)] bi)
qed






text \<open>The \<open>except KeyboardInterrupt\<close> clauses, were an interrupt ever raised inside a pass:
  \<open>BackgroundWorker\<close> breaks out of its loop; \<open>SmartBackGroundWorker\<close> formats \<open>e\<close>, a
  name not bound in that clause, and the \<open>UnboundLocalError\<close> leaves the loop.\<close>

lemma worker_interrupt_breaks:
  "fst (worker_try en (bw, w)) = Raise KeyboardInterrupt
   \<Longrightarrow> fst (worker_iteration en (bw, w)) = Break"
  by (cases "worker_try en (bw, w)") (simp add: worker_iteration_def worker_except_def)

lemma smart_loop_interrupt_unwinds:
  "fst (smart_worker_loop [interrupted, quiet] (running_smart_worker, later_world))
     = Unwound UnboundLocalError"
proof -
  have f: "fault interrupted SelectUnprocessed = Some KeyboardInterrupt"
    "fault interrupted CountUnprocessed = None" "others interrupted CountUnprocessed = (\<lambda>d. d)"
    by (simp_all add: interrupted_def quiet_def)
  obtain sw1 w1 where en: "smart_worker_loop_enter (running_smart_worker, later_world) = (sw1, w1)"
    by (cases "smart_worker_loop_enter (running_smart_worker, later_world)")
  then have d: "db w1 = empty_db" and r: "is_running sw1"
    by (auto simp add: smart_worker_loop_enter_def py_print_def Let_def later_world_def
          running_smart_worker_eq)
  have "unprocessed (others interrupted CountUnprocessed (db w1)) = []"
    by (simp add: f d unprocessed_def empty_db_def)
  from smart_try_failed_select [OF f(1,2) this]
  have t: "fst (smart_try interrupted (sw1, w1)) = Raise KeyboardInterrupt" .
  then have "fst (smart_iteration interrupted (sw1, w1)) = Propagate UnboundLocalError"
    by (cases "smart_try interrupted (sw1, w1)") (simp add: smart_iteration_def smart_except_def)
  with r show ?thesis
    by (cases "smart_iteration interrupted (sw1, w1)") (simp add: smart_worker_loop_def en)
qed

end
